theory Spec2Isabelle
  imports Complex_Main "HOL-Library.Sublist" "HOL-Library.Char_ord" "HOL-Library.List_Lexorder"
begin

section \<open>Python values, errors and dictionaries\<close>

text \<open>
  Floats are modelled as reals, and the reductions of numpy and pandas (mean, standard
  deviation, rounding) as the exact operations on them. The code computes in IEEE
  doubles, so a value it produces agrees with the model's only up to the rounding of
  the last places (the mean of one hundred readings 0.9 is 0.9000000000000005 there).
  What is proved below about scores and shares is therefore stated with a tolerance,
  and nothing is stated about a decision that turns on the last place of a double: a
  computed standard deviation being exactly zero, a z-score being exactly 2.0, a share
  lying exactly between two thousandths.
  The one float that is not a real, NaN, arises in the modelled code only from
  \<open>np.mean\<close> of an empty array; the model stops there with \<open>FloatingPointNaN\<close> instead of
  carrying NaN through the comparisons, so it covers non-empty batches.
  Exceptions are values: \<open>Inl e\<close> is a raised exception, \<open>Inr v\<close> a returned value.
\<close>

datatype error =
    KeyError string
  | ValueError string
  | IndexError string
  | AttributeError string
  | TypeError string
  | FloatingPointNaN string

text \<open>\<open>str(e)\<close>: a KeyError prints the repr of its key, the others their message.\<close>

fun str_error :: "error \<Rightarrow> string" where
  "str_error (KeyError k) = [CHR 0x27] @ k @ [CHR 0x27]"
| "str_error (ValueError m) = m"
| "str_error (IndexError m) = m"
| "str_error (AttributeError m) = m"
| "str_error (TypeError m) = m"
| "str_error (FloatingPointNaN m) = m"

definition bind_err :: "error + 'a \<Rightarrow> ('a \<Rightarrow> error + 'b) \<Rightarrow> error + 'b" where
  "bind_err m f = (case m of Inl e \<Rightarrow> Inl e | Inr v \<Rightarrow> f v)"

text \<open>A dict is an association list in insertion order with unique keys.
  \<open>d[k]\<close> raises KeyError on a missing key; \<open>d.get(k, default)\<close> does not.\<close>

definition dict_getitem :: "(string \<times> 'v) list \<Rightarrow> string \<Rightarrow> error + 'v" where
  "dict_getitem d k = (case map_of d k of None \<Rightarrow> Inl (KeyError k) | Some v \<Rightarrow> Inr v)"

definition dict_get :: "('k \<times> 'v) list \<Rightarrow> 'k \<Rightarrow> 'v \<Rightarrow> 'v" where
  "dict_get d k dflt = (case map_of d k of None \<Rightarrow> dflt | Some v \<Rightarrow> v)"

text \<open>The values stored in the detection-result dict: numpy arrays and scalars.\<close>

datatype dval =
    BoolArray "bool list"
  | FloatArray "real list"
  | IntArray "int list"
  | IntVal int
  | FloatVal real

type_synonym detection_results = "(string \<times> dval) list"

text \<open>Typed reads of the dict. A value of another shape than the one
  \<open>FaultDetectionAgent.detect\<close> stores under the key is rejected with TypeError:
  what numpy does with it is outside the model.\<close>

definition get_float_array :: "detection_results \<Rightarrow> string \<Rightarrow> error + real list" where
  "get_float_array d k = bind_err (dict_getitem d k)
     (\<lambda>v. case v of FloatArray xs \<Rightarrow> Inr xs | _ \<Rightarrow> Inl (TypeError k))"

definition get_bool_array :: "detection_results \<Rightarrow> string \<Rightarrow> error + bool list" where
  "get_bool_array d k = bind_err (dict_getitem d k)
     (\<lambda>v. case v of BoolArray bs \<Rightarrow> Inr bs | _ \<Rightarrow> Inl (TypeError k))"

definition get_float :: "detection_results \<Rightarrow> string \<Rightarrow> error + real" where
  "get_float d k = bind_err (dict_getitem d k)
     (\<lambda>v. case v of FloatVal r \<Rightarrow> Inr r | IntVal i \<Rightarrow> Inr (of_int i) | _ \<Rightarrow> Inl (TypeError k))"

definition get_int :: "detection_results \<Rightarrow> string \<Rightarrow> error + int" where
  "get_int d k = bind_err (dict_getitem d k)
     (\<lambda>v. case v of IntVal i \<Rightarrow> Inr i | _ \<Rightarrow> Inl (TypeError k))"

subsection \<open>numpy reductions\<close>

definition np_mean :: "real list \<Rightarrow> error + real" where
  "np_mean xs = (if xs = [] then Inl (FloatingPointNaN ''mean of empty slice'')
                 else Inr (sum_list xs / real (length xs)))"

definition np_max :: "real list \<Rightarrow> error + real" where
  "np_max xs = (if xs = []
                then Inl (ValueError ''zero-size array to reduction operation maximum which has no identity'')
                else Inr (fold max (tl xs) (hd xs)))"

definition np_sum_flags :: "bool list \<Rightarrow> int" where
  "np_sum_flags flags = int (length (filter (\<lambda>b. b) flags))"

definition np_mean_flags :: "bool list \<Rightarrow> error + real" where
  "np_mean_flags flags = np_mean (map (\<lambda>b. if b then 1 else 0) flags)"

text \<open>\<open>attack_probs[anomaly_flags]\<close>: boolean-mask indexing, an IndexError when the
  mask and the array differ in length.\<close>

definition mask_index :: "real list \<Rightarrow> bool list \<Rightarrow> error + real list" where
  "mask_index xs flags =
     (if length xs \<noteq> length flags
      then Inl (IndexError ''boolean index did not match indexed array along axis 0'')
      else Inr (map fst (filter snd (zip xs flags))))"

section \<open>Risk levels\<close>

datatype RiskLevel = LOW | MEDIUM | HIGH | CRITICAL

fun RiskLevel_value :: "RiskLevel \<Rightarrow> string" where
  "RiskLevel_value LOW = ''low''"
| "RiskLevel_value MEDIUM = ''medium''"
| "RiskLevel_value HIGH = ''high''"
| "RiskLevel_value CRITICAL = ''critical''"

section \<open>CyberRiskAssessmentAgent\<close>

record CyberRiskAssessmentAgent =
  prob_thresholds :: "(string \<times> real) list"

definition CyberRiskAssessmentAgent_init :: CyberRiskAssessmentAgent where
  "CyberRiskAssessmentAgent_init =
     \<lparr>prob_thresholds = [(''low'', 0.3), (''medium'', 0.6), (''high'', 0.85)]\<rparr>"

definition calculate_cyber_risk_score :: "real \<Rightarrow> real \<Rightarrow> real \<Rightarrow> real" where
  "calculate_cyber_risk_score avg_prob anomaly_rate temporal_risk =
     (let score = 0.4 * avg_prob + 0.3 * anomaly_rate + 0.3 * temporal_risk
      in min 1.0 score)"

text \<open>The loop of \<open>_analyze_temporal_pattern\<close>: \<open>consecutive_count\<close> and
  \<open>max_consecutive\<close> are the two loop variables.\<close>

fun temporal_loop :: "bool list \<Rightarrow> nat \<Rightarrow> nat \<Rightarrow> nat" where
  "temporal_loop [] consecutive_count max_consecutive = max_consecutive"
| "temporal_loop (flag # rest) consecutive_count max_consecutive =
     (if flag
      then temporal_loop rest (consecutive_count + 1)
             (max max_consecutive (consecutive_count + 1))
      else temporal_loop rest 0 max_consecutive)"

definition analyze_temporal_pattern :: "bool list \<Rightarrow> real" where
  "analyze_temporal_pattern anomaly_flags =
     (if length anomaly_flags < 10 then 0.0
      else let max_consecutive = temporal_loop anomaly_flags 0 0
           in min 1.0 (real max_consecutive / 10.0))"

definition cyber_classify_risk_level :: "CyberRiskAssessmentAgent \<Rightarrow> real \<Rightarrow> error + RiskLevel" where
  "cyber_classify_risk_level self score =
     bind_err (dict_getitem (prob_thresholds self) ''low'') (\<lambda>low.
       if score < low then Inr LOW
       else bind_err (dict_getitem (prob_thresholds self) ''medium'') (\<lambda>medium.
         if score < medium then Inr MEDIUM
         else bind_err (dict_getitem (prob_thresholds self) ''high'') (\<lambda>high.
           if score < high then Inr HIGH else Inr CRITICAL)))"

definition identify_attack_pattern :: "bool list \<Rightarrow> real list \<Rightarrow> error + string" where
  "identify_attack_pattern anomaly_flags attack_probs =
     bind_err (np_mean_flags anomaly_flags) (\<lambda>anomaly_rate.
     bind_err (if list_ex (\<lambda>b. b) anomaly_flags
               then bind_err (mask_index attack_probs anomaly_flags) np_mean
               else Inr 0) (\<lambda>avg_prob.
       Inr (if anomaly_rate > 0.8 then ''Persistent Attack''
            else if anomaly_rate > 0.5 then ''Intermittent Attack''
            else if avg_prob > 0.9 then ''Targeted Attack''
            else if anomaly_rate > 0.1 then ''Sporadic Anomalies''
            else ''Normal Operation'')))"

fun generate_threat_assessment :: "RiskLevel \<Rightarrow> string \<Rightarrow> string" where
  "generate_threat_assessment LOW attack_signature =
     ''Minimal cyber threat detected. '' @ attack_signature @ ''.''"
| "generate_threat_assessment MEDIUM attack_signature =
     ''Moderate cyber risk. '' @ attack_signature @ ''. Monitor closely.''"
| "generate_threat_assessment HIGH attack_signature =
     ''High cyber threat level! '' @ attack_signature @ ''. Immediate attention required.''"
| "generate_threat_assessment CRITICAL attack_signature =
     ''CRITICAL CYBER ATTACK! '' @ attack_signature @ ''. Activate incident response!''"

section \<open>OperationalRiskAssessmentAgent\<close>

record OperationalRiskAssessmentAgent =
  risk_matrix :: "((string \<times> string) \<times> real) list"

definition OperationalRiskAssessmentAgent_init :: OperationalRiskAssessmentAgent where
  "OperationalRiskAssessmentAgent_init =
     \<lparr>risk_matrix =
        [((''low'', ''low''), 0.1),
         ((''low'', ''medium''), 0.2),
         ((''low'', ''high''), 0.4),
         ((''medium'', ''low''), 0.3),
         ((''medium'', ''medium''), 0.5),
         ((''medium'', ''high''), 0.7),
         ((''high'', ''low''), 0.5),
         ((''high'', ''medium''), 0.7),
         ((''high'', ''high''), 0.9)]\<rparr>"

definition assess_impact :: "real \<Rightarrow> int \<Rightarrow> string" where
  "assess_impact anomaly_rate num_anomalies =
     (if anomaly_rate > 0.7 \<or> num_anomalies > 1000 then ''high''
      else if anomaly_rate > 0.3 \<or> num_anomalies > 100 then ''medium''
      else ''low'')"

definition likelihood_map :: "(string \<times> string) list" where
  "likelihood_map =
     [(''low'', ''low''), (''medium'', ''medium''), (''high'', ''high''), (''critical'', ''high'')]"

definition calculate_operational_risk ::
  "OperationalRiskAssessmentAgent \<Rightarrow> string \<Rightarrow> string \<Rightarrow> real" where
  "calculate_operational_risk self likelihood impact =
     (let normalized_likelihood = dict_get likelihood_map likelihood ''medium''
      in dict_get (risk_matrix self) (normalized_likelihood, impact) 0.5)"

definition assess_fault_severity :: "real \<Rightarrow> real \<Rightarrow> string" where
  "assess_fault_severity risk_score anomaly_rate =
     (let combined_score = (risk_score + anomaly_rate) / 2
      in if combined_score > 0.8 then ''Critical''
         else if combined_score > 0.6 then ''High''
         else if combined_score > 0.3 then ''Medium''
         else ''Low'')"

definition identify_affected_systems :: "int \<Rightarrow> real \<Rightarrow> string list" where
  "identify_affected_systems num_anomalies anomaly_rate =
     (let affected = [];
          affected = (if anomaly_rate > 0.5
                      then affected @ [''Primary Treatment'', ''Distribution System'']
                      else affected);
          affected = (if num_anomalies > 500 then affected @ [''Control System''] else affected);
          affected = (if anomaly_rate > 0.8 then affected @ [''Safety Systems''] else affected)
      in if affected \<noteq> [] then affected else [''Monitoring Systems''])"

definition downtime_map :: "((string \<times> string) \<times> int) list" where
  "downtime_map =
     [((''Critical'', ''high''), 240),
      ((''Critical'', ''medium''), 120),
      ((''High'', ''high''), 120),
      ((''High'', ''medium''), 60),
      ((''Medium'', ''high''), 60),
      ((''Medium'', ''medium''), 30)]"

definition estimate_downtime :: "string \<Rightarrow> string \<Rightarrow> int" where
  "estimate_downtime severity impact = dict_get downtime_map (severity, impact) 15"

definition assess_safety_impact :: "real \<Rightarrow> string" where
  "assess_safety_impact risk_score =
     (if risk_score > 0.8 then ''Severe - Immediate safety concerns''
      else if risk_score > 0.6 then ''Moderate - Safety monitoring required''
      else if risk_score > 0.3 then ''Minor - Standard safety protocols''
      else ''Minimal - No safety concerns'')"

definition determine_priority :: "real \<Rightarrow> string \<Rightarrow> int" where
  "determine_priority risk_score severity =
     (if severity = ''Critical'' \<or> risk_score > 0.8 then 1
      else if severity = ''High'' \<or> risk_score > 0.6 then 2
      else if severity = ''Medium'' \<or> risk_score > 0.4 then 3
      else 4)"

definition operational_classify_risk_level :: "real \<Rightarrow> RiskLevel" where
  "operational_classify_risk_level score =
     (if score < 0.3 then LOW
      else if score < 0.6 then MEDIUM
      else if score < 0.85 then HIGH
      else CRITICAL)"

section \<open>DecisionMakingAgent\<close>

record DecisionMakingAgent =
  action_library :: "(string \<times> string list) list"
  stage_actions :: "(string \<times> string list) list"

definition DecisionMakingAgent_init :: DecisionMakingAgent where
  "DecisionMakingAgent_init =
     \<lparr>action_library =
        [(''critical_cyber'',
            [''Isolate affected network segments'',
             ''Activate incident response team'',
             ''Switch to backup control system'',
             ''Initiate emergency shutdown protocol'',
             ''Preserve logs for forensic analysis'']),
         (''high_cyber'',
            [''Increase monitoring frequency'',
             ''Restrict remote access'',
             ''Verify actuator commands'',
             ''Alert security operations center'']),
         (''critical_operational'',
            [''Emergency shutdown of affected stages'',
             ''Activate backup water supply'',
             ''Notify emergency response team'',
             ''Implement manual override controls'',
             ''Evacuate non-essential personnel'']),
         (''high_operational'',
            [''Reduce process throughput'',
             ''Activate redundant systems'',
             ''Increase operator supervision'',
             ''Prepare for manual intervention'']),
         (''medium_risk'',
            [''Continue enhanced monitoring'',
             ''Log anomalies for analysis'',
             ''Notify maintenance team'',
             ''Schedule system inspection'']),
         (''low_risk'',
            [''Standard monitoring protocols'',
             ''Document anomaly in system logs''])],
      stage_actions =
        [(''P1'', [''Close inlet valve MV101'', ''Stop pumps P101/P102'']),
         (''P2'', [''Isolate chemical dosing'', ''Stop dosing pumps'']),
         (''P3'', [''Bypass ultrafiltration'', ''Activate backwash'']),
         (''P4'', [''Switch to backup UV system'', ''Adjust dechlorination'']),
         (''P5'', [''Reduce RO pressure'', ''Activate membrane protection'']),
         (''P6'', [''Close distribution valves'', ''Activate storage tanks''])]\<rparr>"

definition risk_scores :: "(string \<times> int) list" where
  "risk_scores = [(''low'', 1), (''medium'', 2), (''high'', 3), (''critical'', 4)]"

definition identify_primary_threat :: "string \<Rightarrow> string \<Rightarrow> string" where
  "identify_primary_threat cyber_risk operational_risk =
     (let cyber_score = dict_get risk_scores cyber_risk 0;
          op_score = dict_get risk_scores operational_risk 0
      in if cyber_score > op_score then ''Cyber Attack''
         else if op_score > cyber_score then ''Operational Failure''
         else ''Combined Cyber-Physical Threat'')"

text \<open>\<open>list(dict.fromkeys(actions))\<close>: the keys are inserted one by one, a key already
  present keeps its place, and the dict lists its keys in insertion order.\<close>

definition dict_fromkeys :: "'a list \<Rightarrow> 'a list" where
  "dict_fromkeys xs = fold (\<lambda>x keys. if x \<in> set keys then keys else keys @ [x]) xs []"

definition select_actions ::
  "DecisionMakingAgent \<Rightarrow> string \<Rightarrow> string \<Rightarrow> string \<Rightarrow> error + string list" where
  "select_actions self cyber_risk operational_risk fault_severity =
     bind_err
       (if cyber_risk = ''critical''
        then dict_getitem (action_library self) ''critical_cyber''
        else if cyber_risk = ''high''
        then dict_getitem (action_library self) ''high_cyber''
        else Inr []) (\<lambda>actions.
     bind_err
       (if operational_risk = ''critical'' \<or> fault_severity = ''Critical''
        then dict_getitem (action_library self) ''critical_operational''
        else if operational_risk = ''high'' \<or> fault_severity = ''High''
        then dict_getitem (action_library self) ''high_operational''
        else if operational_risk = ''medium''
        then dict_getitem (action_library self) ''medium_risk''
        else dict_getitem (action_library self) ''low_risk'') (\<lambda>more.
       Inr (dict_fromkeys (actions @ more))))"

definition get_stage_actions :: "DecisionMakingAgent \<Rightarrow> string list \<Rightarrow> error + string list" where
  "get_stage_actions self affected_systems =
     bind_err (if ''Primary Treatment'' \<in> set affected_systems
               then dict_getitem (stage_actions self) ''P2'' else Inr []) (\<lambda>a1.
     bind_err (if ''Distribution System'' \<in> set affected_systems
               then dict_getitem (stage_actions self) ''P6'' else Inr []) (\<lambda>a2.
       Inr (a1 @ a2
            @ (if ''Control System'' \<in> set affected_systems
               then [''Switch to manual control mode''] else [])
            @ (if ''Safety Systems'' \<in> set affected_systems
               then [''Activate emergency safety protocols''] else []))))"

record action_priority =
  immediate :: "string list"
  short_term :: "string list"
  ongoing :: "string list"

text \<open>Python slices: \<open>xs[a:b]\<close> is \<open>take (b - a) (drop a xs)\<close>, \<open>xs[a:]\<close> is \<open>drop a xs\<close>.\<close>

definition prioritize_actions :: "string list \<Rightarrow> int \<Rightarrow> action_priority" where
  "prioritize_actions actions priority =
     (if priority = 1 then
        \<lparr>immediate = (if length actions \<ge> 3 then take 3 actions else actions),
         short_term = (if length actions > 3 then take 3 (drop 3 actions) else []),
         ongoing = (if length actions > 6 then drop 6 actions else [])\<rparr>
      else if priority = 2 then
        \<lparr>immediate = (if length actions \<ge> 2 then take 2 actions else actions),
         short_term = (if length actions > 2 then take 3 (drop 2 actions) else []),
         ongoing = (if length actions > 5 then drop 5 actions else [])\<rparr>
      else
        \<lparr>immediate = (if actions \<noteq> [] then take 1 actions else []),
         short_term = (if length actions > 1 then take 3 (drop 1 actions) else []),
         ongoing = (if length actions > 4 then drop 4 actions else [])\<rparr>)"

definition calculate_response_timeline :: "string \<Rightarrow> string \<Rightarrow> string \<Rightarrow> string" where
  "calculate_response_timeline cyber_risk operational_risk fault_severity =
     (if cyber_risk = ''critical'' \<or> operational_risk = ''critical''
      then ''IMMEDIATE (0-5 minutes)''
      else if cyber_risk = ''high'' \<or> operational_risk = ''high'' \<or> fault_severity = ''High''
      then ''URGENT (5-15 minutes)''
      else if cyber_risk = ''medium'' \<or> operational_risk = ''medium''
      then ''PRIORITY (15-60 minutes)''
      else ''STANDARD (1-24 hours)'')"

definition requires_human_approval :: "string \<Rightarrow> string \<Rightarrow> bool" where
  "requires_human_approval cyber_risk operational_risk =
     (cyber_risk = ''critical'' \<or> operational_risk = ''critical'')"

definition contacts :: "(string \<times> string list) list" where
  "contacts =
     [(''Cyber Attack'',
         [''Security Operations Center'', ''IT Incident Response Team'', ''Plant Manager'']),
      (''Operational Failure'', [''Plant Engineer'', ''Maintenance Team'', ''Safety Officer'']),
      (''Combined Cyber-Physical Threat'',
         [''Emergency Response Team'', ''Plant Manager'', ''Security Team'', ''Safety Officer''])]"

definition get_emergency_contacts :: "string \<Rightarrow> string list" where
  "get_emergency_contacts primary_threat = dict_get contacts primary_threat [''Plant Manager'']"

text \<open>
  The spec's words for the action list, over any action library: the cyber-tier list
  (emitted only for cyber level critical or high) followed by the
  operational/severity-tier list, each entry kept at its first occurrence only.
\<close>

definition first_occurrences :: "'a list \<Rightarrow> 'a list" where
  "first_occurrences xs =
     map (\<lambda>i. xs ! i) (filter (\<lambda>i. xs ! i \<notin> set (take i xs)) [0..<length xs])"

definition cyber_tier_actions :: "(string \<times> string list) list \<Rightarrow> string \<Rightarrow> string list" where
  "cyber_tier_actions library cyber_level =
     (if cyber_level = ''critical'' then dict_get library ''critical_cyber'' []
      else if cyber_level = ''high'' then dict_get library ''high_cyber'' []
      else [])"

definition operational_tier_actions ::
  "(string \<times> string list) list \<Rightarrow> string \<Rightarrow> string \<Rightarrow> string list" where
  "operational_tier_actions library operational_level fault_severity =
     (if operational_level = ''critical'' \<or> fault_severity = ''Critical''
      then dict_get library ''critical_operational'' []
      else if operational_level = ''high'' \<or> fault_severity = ''High''
      then dict_get library ''high_operational'' []
      else if operational_level = ''medium''
      then dict_get library ''medium_risk'' []
      else dict_get library ''low_risk'' [])"

section \<open>The three assessments\<close>

text \<open>
  The result dicts of the three agents are records: the keys are fixed by the code that
  builds them. Left out are the fields that only format text for display:
  \<open>performance_degradation\<close> (a float printed with one decimal) and
  \<open>decision_rationale\<close> (which quotes it). The decision's key
  \<open>requires_human_approval\<close> is the field \<open>requires_human_approval_flag\<close>, the name
  without suffix being the method that computes it.
\<close>

record cyber_assessment =
  cyber_risk_score :: real
  risk_level :: string
  avg_attack_probability :: real
  max_attack_probability :: real
  anomaly_count :: int
  anomaly_rate :: real
  temporal_risk :: real
  attack_signature :: string
  threat_assessment :: string

text \<open>\<open>assess_risk\<close>. The timestamps are an optional argument; only their presence and
  their number are read. \<open>np.mean\<close> of an empty probability array would be NaN, but
  \<open>np.max\<close> on the next line raises ValueError for it, so that is the outcome.\<close>

definition cyber_assess_risk ::
  "CyberRiskAssessmentAgent \<Rightarrow> detection_results \<Rightarrow> 'ts list option \<Rightarrow> error + cyber_assessment" where
  "cyber_assess_risk self detection_results timestamps =
     bind_err (get_float_array detection_results ''attack_probability'') (\<lambda>attack_probs.
     bind_err (get_bool_array detection_results ''anomaly_detected'') (\<lambda>anomaly_flags.
     bind_err (np_max attack_probs) (\<lambda>max_attack_prob.
     bind_err (np_mean attack_probs) (\<lambda>avg_attack_prob.
     let num_anomalies = np_sum_flags anomaly_flags in
     bind_err (np_mean_flags anomaly_flags) (\<lambda>anomaly_rate.
     let temporal_risk_score =
           (case timestamps of
              None \<Rightarrow> 0.0
            | Some ts \<Rightarrow> if length ts > 1 then analyze_temporal_pattern anomaly_flags else 0.0);
         cyber_risk_score =
           calculate_cyber_risk_score avg_attack_prob anomaly_rate temporal_risk_score
     in
     bind_err (cyber_classify_risk_level self cyber_risk_score) (\<lambda>risk_level.
     bind_err (identify_attack_pattern anomaly_flags attack_probs) (\<lambda>attack_signature.
       Inr \<lparr>cyber_risk_score = cyber_risk_score,
            risk_level = RiskLevel_value risk_level,
            avg_attack_probability = avg_attack_prob,
            max_attack_probability = max_attack_prob,
            anomaly_count = num_anomalies,
            anomaly_rate = anomaly_rate,
            temporal_risk = temporal_risk_score,
            attack_signature = attack_signature,
            threat_assessment = generate_threat_assessment risk_level attack_signature\<rparr>)))))))"

record operational_assessment =
  operational_risk_score :: real
  risk_level :: string
  fault_severity :: string
  impact_level :: string
  likelihood :: string
  affected_systems :: "string list"
  estimated_downtime_minutes :: int
  safety_impact :: string
  mitigation_priority :: int

definition operational_assess_risk ::
  "OperationalRiskAssessmentAgent \<Rightarrow> detection_results \<Rightarrow> cyber_assessment
     \<Rightarrow> error + operational_assessment" where
  "operational_assess_risk self detection_results cyber_risk =
     bind_err (get_float detection_results ''anomaly_rate'') (\<lambda>rate.
     bind_err (get_int detection_results ''num_anomalies'') (\<lambda>num_anomalies.
     let impact = assess_impact rate num_anomalies;
         lik = cyber_assessment.risk_level cyber_risk;
         op_risk_score = calculate_operational_risk self lik impact;
         severity = assess_fault_severity op_risk_score rate;
         affected = identify_affected_systems num_anomalies rate;
         estimated_downtime = estimate_downtime severity impact
     in Inr \<lparr>operational_risk_score = op_risk_score,
             risk_level = RiskLevel_value (operational_classify_risk_level op_risk_score),
             fault_severity = severity,
             impact_level = impact,
             likelihood = lik,
             affected_systems = affected,
             estimated_downtime_minutes = estimated_downtime,
             safety_impact = assess_safety_impact op_risk_score,
             mitigation_priority = determine_priority op_risk_score severity\<rparr>))"

record decision =
  primary_threat :: string
  recommended_actions :: "string list"
  stage_specific_actions :: "string list"
  action_priority :: action_priority
  response_timeline :: string
  requires_human_approval_flag :: bool
  estimated_resolution_time :: int
  emergency_contacts :: "string list"

definition decide ::
  "DecisionMakingAgent \<Rightarrow> cyber_assessment \<Rightarrow> operational_assessment \<Rightarrow> error + decision" where
  "decide self cyber_assessment operational_assessment =
     (let cyber_risk = cyber_assessment.risk_level cyber_assessment;
          operational_risk = operational_assessment.risk_level operational_assessment;
          severity = fault_severity operational_assessment;
          affected = affected_systems operational_assessment;
          threat = identify_primary_threat cyber_risk operational_risk
      in
      bind_err (select_actions self cyber_risk operational_risk severity) (\<lambda>actions.
      bind_err (get_stage_actions self affected) (\<lambda>stage_specific.
        Inr \<lparr>primary_threat = threat,
             recommended_actions = actions,
             stage_specific_actions = stage_specific,
             action_priority =
               prioritize_actions actions (mitigation_priority operational_assessment),
             response_timeline =
               calculate_response_timeline cyber_risk operational_risk severity,
             requires_human_approval_flag =
               requires_human_approval cyber_risk operational_risk,
             estimated_resolution_time = estimated_downtime_minutes operational_assessment,
             emergency_contacts = get_emergency_contacts threat\<rparr>)))"

section \<open>RiskMappingAgent\<close>

definition RISK_CATEGORIES :: "string list" where
  "RISK_CATEGORIES =
     [''Water Overflow'',
      ''Pump Damage'',
      ''Water Quality Degradation'',
      ''Unsafe Chemical Dosing'',
      ''Process Interruption'',
      ''Unauthorized Access'',
      ''Data Tampering'',
      ''Denial of Service'']"

definition SENSOR_RISK_MAP :: "(string \<times> string list) list" where
  "SENSOR_RISK_MAP =
     [(''LIT-101'', [''Water Overflow'', ''Process Interruption'', ''Data Tampering'']),
      (''FIT-101'', [''Pump Damage'', ''Unsafe Chemical Dosing'', ''Process Interruption'', ''Data Tampering'']),
      (''P-101'', [''Pump Damage'', ''Process Interruption'']),
      (''P-102'', [''Pump Damage'', ''Process Interruption'']),
      (''MV-101'', [''Water Overflow'', ''Process Interruption'']),
      (''AIT-101'', [''Water Quality Degradation'', ''Data Tampering'']),
      (''AIT-102'', [''Water Quality Degradation'', ''Data Tampering'']),
      (''DPIT-101'', [''Pump Damage'', ''Process Interruption'']),
      (''FIT-201'', [''Unsafe Chemical Dosing'', ''Water Quality Degradation'', ''Process Interruption'']),
      (''AIT-201'', [''Water Quality Degradation'', ''Unsafe Chemical Dosing'', ''Data Tampering'']),
      (''AIT-202'', [''Water Quality Degradation'', ''Unsafe Chemical Dosing'', ''Data Tampering'']),
      (''AIT-203'', [''Water Quality Degradation'', ''Unsafe Chemical Dosing'', ''Data Tampering'']),
      (''P-201'', [''Pump Damage'', ''Unsafe Chemical Dosing'']),
      (''P-202'', [''Pump Damage'', ''Unsafe Chemical Dosing'']),
      (''P-203'', [''Pump Damage'', ''Unsafe Chemical Dosing'']),
      (''P-204'', [''Pump Damage'', ''Unsafe Chemical Dosing'']),
      (''MV-201'', [''Unsafe Chemical Dosing'', ''Process Interruption'']),
      (''FIT-301'', [''Pump Damage'', ''Process Interruption'', ''Data Tampering'']),
      (''LIT-301'', [''Water Overflow'', ''Process Interruption'', ''Data Tampering'']),
      (''DPIT-301'', [''Pump Damage'', ''Process Interruption'']),
      (''P-301'', [''Pump Damage'', ''Process Interruption'']),
      (''P-302'', [''Pump Damage'', ''Process Interruption'']),
      (''MV-301'', [''Water Overflow'', ''Process Interruption'']),
      (''MV-302'', [''Water Overflow'', ''Process Interruption'']),
      (''AIT-301'', [''Water Quality Degradation'', ''Data Tampering'']),
      (''AIT-302'', [''Water Quality Degradation'', ''Data Tampering'']),
      (''AIT-303'', [''Water Quality Degradation'', ''Data Tampering'']),
      (''FIT-401'', [''Pump Damage'', ''Process Interruption'', ''Data Tampering'']),
      (''LIT-401'', [''Water Overflow'', ''Process Interruption'', ''Data Tampering'']),
      (''AIT-401'', [''Water Quality Degradation'', ''Unsafe Chemical Dosing'', ''Data Tampering'']),
      (''AIT-402'', [''Water Quality Degradation'', ''Unsafe Chemical Dosing'', ''Data Tampering'']),
      (''P-401'', [''Pump Damage'', ''Process Interruption'']),
      (''P-402'', [''Pump Damage'', ''Process Interruption'']),
      (''P-403'', [''Pump Damage'', ''Process Interruption'']),
      (''UV-401'', [''Water Quality Degradation'', ''Process Interruption'']),
      (''FIT-501'', [''Pump Damage'', ''Water Quality Degradation'', ''Process Interruption'']),
      (''FIT-502'', [''Pump Damage'', ''Water Quality Degradation'', ''Process Interruption'']),
      (''FIT-503'', [''Pump Damage'', ''Water Quality Degradation'', ''Process Interruption'']),
      (''PIT-501'', [''Pump Damage'', ''Process Interruption'', ''Data Tampering'']),
      (''PIT-502'', [''Pump Damage'', ''Process Interruption'', ''Data Tampering'']),
      (''P-501'', [''Pump Damage'', ''Process Interruption'']),
      (''P-502'', [''Pump Damage'', ''Process Interruption'']),
      (''AIT-501'', [''Water Quality Degradation'', ''Data Tampering'']),
      (''FIT-601'', [''Pump Damage'', ''Process Interruption'', ''Data Tampering'']),
      (''LIT-601'', [''Water Overflow'', ''Process Interruption'', ''Data Tampering'']),
      (''P-601'', [''Pump Damage'', ''Process Interruption'']),
      (''P-602'', [''Pump Damage'', ''Process Interruption'']),
      (''P-603'', [''Pump Damage'', ''Process Interruption'']),
      (''DPIT-601'', [''Pump Damage'', ''Process Interruption'']),
      (''AIT-601'', [''Water Quality Degradation'', ''Data Tampering'']),
      (''AIT-602'', [''Water Quality Degradation'', ''Data Tampering''])]"

definition SENSOR_STAGE_MAP :: "(string \<times> string) list" where
  "SENSOR_STAGE_MAP =
     [(''LIT-101'', ''P1''), (''FIT-101'', ''P1''), (''P-101'', ''P1''), (''P-102'', ''P1''),
      (''MV-101'', ''P1''), (''AIT-101'', ''P1''), (''AIT-102'', ''P1''), (''DPIT-101'', ''P1''),
      (''FIT-201'', ''P2''), (''AIT-201'', ''P2''), (''AIT-202'', ''P2''), (''AIT-203'', ''P2''),
      (''P-201'', ''P2''), (''P-202'', ''P2''), (''P-203'', ''P2''), (''P-204'', ''P2''),
      (''MV-201'', ''P2''), (''FIT-301'', ''P3''), (''LIT-301'', ''P3''), (''DPIT-301'', ''P3''),
      (''P-301'', ''P3''), (''P-302'', ''P3''), (''MV-301'', ''P3''), (''MV-302'', ''P3''),
      (''AIT-301'', ''P3''), (''AIT-302'', ''P3''), (''AIT-303'', ''P3''), (''FIT-401'', ''P4''),
      (''LIT-401'', ''P4''), (''AIT-401'', ''P4''), (''AIT-402'', ''P4''), (''P-401'', ''P4''),
      (''P-402'', ''P4''), (''P-403'', ''P4''), (''UV-401'', ''P4''), (''FIT-501'', ''P5''),
      (''FIT-502'', ''P5''), (''FIT-503'', ''P5''), (''PIT-501'', ''P5''), (''PIT-502'', ''P5''),
      (''P-501'', ''P5''), (''P-502'', ''P5''), (''AIT-501'', ''P5''), (''FIT-601'', ''P6''),
      (''LIT-601'', ''P6''), (''P-601'', ''P6''), (''P-602'', ''P6''), (''P-603'', ''P6''),
      (''DPIT-601'', ''P6''), (''AIT-601'', ''P6''), (''AIT-602'', ''P6'')]"

text \<open>The agent's process-lifetime counters. A \<open>defaultdict\<close> is an association list
  in insertion order; reading a missing key inserts the default at the end.\<close>

record RiskMappingAgent =
  risk_history :: "(string \<times> (string \<times> int) list) list"
  sensor_anomaly_counts :: "(string \<times> int) list"
  total_anomalies :: int

definition RiskMappingAgent_init :: RiskMappingAgent where
  "RiskMappingAgent_init =
     \<lparr>risk_history = [], sensor_anomaly_counts = [], total_anomalies = 0\<rparr>"

fun defaultdict_update :: "'k \<Rightarrow> 'v \<Rightarrow> ('v \<Rightarrow> 'v) \<Rightarrow> ('k \<times> 'v) list \<Rightarrow> ('k \<times> 'v) list" where
  "defaultdict_update k dflt f [] = [(k, f dflt)]"
| "defaultdict_update k dflt f ((k', v) # rest) =
     (if k = k' then (k', f v) # rest else (k', v) # defaultdict_update k dflt f rest)"

text \<open>
  The sensor frame: a pandas DataFrame of numeric readings, as its number of rows and its
  columns by name. pandas keeps every column at the frame's length; readings are finite
  floats (no missing values).
\<close>

record DataFrame =
  nrows :: nat
  columns :: "(string \<times> real list) list"

text \<open>pandas \<open>Series.mean()\<close> and \<open>Series.std()\<close> (the sample standard deviation, with
  \<open>n - 1\<close> in the denominator), for a column of at least two readings.\<close>

definition series_mean :: "real list \<Rightarrow> real" where
  "series_mean xs = sum_list xs / real (length xs)"

definition series_std :: "real list \<Rightarrow> real" where
  "series_std xs =
     sqrt (sum_list (map (\<lambda>x. (x - series_mean xs)\<^sup>2) xs) / real (length xs - 1))"

text \<open>\<open>_is_sensor_anomalous\<close>. For a column of fewer than two readings pandas gives the
  standard deviation NaN: \<open>std == 0\<close> is then false, the z-score is NaN and
  \<open>z_score > 2.0\<close> is false, so the function returns False.\<close>

definition is_sensor_anomalous :: "string \<Rightarrow> real \<Rightarrow> DataFrame \<Rightarrow> bool" where
  "is_sensor_anomalous sensor_name value sensor_data =
     (case map_of (columns sensor_data) sensor_name of
        None \<Rightarrow> False
      | Some sensor_column \<Rightarrow>
          if length sensor_column < 2 then False
          else let mean = series_mean sensor_column;
                   std = series_std sensor_column
               in if std = 0 then False
                  else let z_score = \<bar>(value - mean) / std\<bar> in z_score > 2.0)"

text \<open>Python's \<open>round(x, ndigits)\<close>: to the nearest multiple of \<open>10 ^ (- ndigits)\<close>, a tie
  to the even one.\<close>

definition round_half_even :: "real \<Rightarrow> int" where
  "round_half_even y =
     (let f = \<lfloor>y\<rfloor>; d = y - of_int f
      in if d < 1 / 2 then f
         else if d > 1 / 2 then f + 1
         else if even f then f else f + 1)"

definition py_round :: "real \<Rightarrow> nat \<Rightarrow> real" where
  "py_round x ndigits = of_int (round_half_even (x * 10 ^ ndigits)) / 10 ^ ndigits"

definition calculate_risk_distribution :: "(string \<times> string list) list \<Rightarrow> (string \<times> real) list" where
  "calculate_risk_distribution risk_contributions =
     (let total_contributions = sum_list (map (\<lambda>kv. length (snd kv)) risk_contributions)
      in if total_contributions = 0
         then map (\<lambda>risk. (risk, 0.0)) RISK_CATEGORIES
         else map (\<lambda>risk.
                let count = length (dict_get risk_contributions risk [])
                in (risk, py_round (real count / real total_contributions) 3))
              RISK_CATEGORIES)"

text \<open>\<open>max(d, key=d.get)\<close> on the items of a dict: the first item whose value is
  maximal.\<close>

definition py_max_item :: "('k \<times> 'v::linorder) \<Rightarrow> ('k \<times> 'v) list \<Rightarrow> 'k \<times> 'v" where
  "py_max_item x xs = fold (\<lambda>y best. if snd y > snd best then y else best) xs x"

text \<open>
  The majority risk. Two fields of the source's dict are left out: \<open>affected_sensors\<close>
  and \<open>description\<close> list the elements of a Python \<open>set\<close> in its iteration order, which
  the language does not fix. \<open>affected_stages\<close> is sorted and is kept.
\<close>

record majority_risk =
  category :: string
  percentage :: real
  count :: int
  affected_stages :: "string list"
  severity :: string

definition no_majority_risk :: majority_risk where
  "no_majority_risk =
     \<lparr>category = ''None'', percentage = 0, count = 0, affected_stages = [],
      severity = ''Low''\<rparr>"

definition identify_majority_risk ::
  "(string \<times> real) list \<Rightarrow> (string \<times> string list) list \<Rightarrow> majority_risk" where
  "identify_majority_risk distribution risk_contributions =
     (case distribution of
        [] \<Rightarrow> no_majority_risk
      | first # others \<Rightarrow>
          if fold max (map snd others) (snd first) = 0 then no_majority_risk
          else
            let best = py_max_item first others;
                majority_risk_name = fst best;
                p = snd best;
                affected_sensors = remdups (dict_get risk_contributions majority_risk_name []);
                n = length (dict_get risk_contributions majority_risk_name []);
                stages = remdups (map (\<lambda>sensor. dict_get SENSOR_STAGE_MAP sensor ''Unknown'')
                                      affected_sensors);
                sev = (if p \<ge> 0.4 then ''Critical''
                       else if p \<ge> 0.25 then ''High''
                       else if p \<ge> 0.15 then ''Medium''
                       else ''Low'')
            in \<lparr>category = majority_risk_name,
                percentage = py_round (p * 100) 1,
                count = int n,
                affected_stages = sort stages,
                severity = sev\<rparr>)"

record sensor_contribution =
  risks :: "string list"
  anomaly_count :: int
  primary_risk :: string
  stage :: string

definition get_sensor_contributions ::
  "(string \<times> (string \<times> int) list) list \<Rightarrow> (string \<times> sensor_contribution) list" where
  "get_sensor_contributions sensor_contributions =
     map (\<lambda>(sensor_name, rs).
            (sensor_name,
             \<lparr>risks = map fst rs,
              anomaly_count = sum_list (map snd rs),
              primary_risk = (case rs of [] \<Rightarrow> ''Unknown'' | r # others \<Rightarrow> fst (py_max_item r others)),
              stage = dict_get SENSOR_STAGE_MAP sensor_name ''Unknown''\<rparr>))
         sensor_contributions"

text \<open>The entries of a risk's sensor list; the source's keys are \<open>id\<close>, \<open>count\<close> and
  \<open>stage\<close>. \<open>sorted(..., reverse=True)\<close> is stable, as \<open>sort_key\<close> is.\<close>

record sensor_entry =
  entry_id :: string
  entry_count :: int
  entry_stage :: string

record risk_detail =
  sensors :: "sensor_entry list"
  total :: int
  unique_sensors :: int

definition get_risk_details :: "(string \<times> string list) list \<Rightarrow> (string \<times> risk_detail) list" where
  "get_risk_details risk_contributions =
     map (\<lambda>risk.
            let ss = dict_get risk_contributions risk [];
                sensor_counts = fold (\<lambda>sensor d. defaultdict_update sensor 0 (\<lambda>c. c + 1) d) ss [];
                sensor_list =
                  map (\<lambda>(sensor, c).
                         \<lparr>entry_id = sensor, entry_count = c,
                          entry_stage = dict_get SENSOR_STAGE_MAP sensor ''Unknown''\<rparr>)
                      (sort_key (\<lambda>item. - snd item) sensor_counts)
            in (risk, \<lparr>sensors = take 10 sensor_list,
                       total = int (length ss),
                       unique_sensors = int (length sensor_counts)\<rparr>))
         RISK_CATEGORIES"

record risk_mapping_result =
  distribution :: "(string \<times> real) list"
  majority_risk :: majority_risk
  sensor_contributions :: "(string \<times> sensor_contribution) list"
  risk_details :: "(string \<times> risk_detail) list"
  total_anomalies_analyzed :: int

definition empty_risk_mapping :: risk_mapping_result where
  "empty_risk_mapping =
     \<lparr>distribution = map (\<lambda>risk. (risk, 0.0)) RISK_CATEGORIES,
      majority_risk =
        \<lparr>category = ''None'', percentage = 0, count = 0, affected_stages = [],
         severity = ''Low''\<rparr>,
      sensor_contributions = [],
      risk_details =
        map (\<lambda>risk. (risk, \<lparr>sensors = [], total = 0, unique_sensors = 0\<rparr>)) RISK_CATEGORIES,
      total_anomalies_analyzed = 0\<rparr>"

text \<open>The argument dict of \<open>map_anomalies_to_risks\<close>; each key may be missing
  (\<open>anomaly_data.get\<close>).\<close>

record anomaly_data =
  predictions :: "dval option"
  attack_probabilities :: "dval option"
  sensor_data :: "DataFrame option"

text \<open>\<open>len(predictions)\<close> and \<open>np.where(np.array(predictions) == 1)[0]\<close>.\<close>

fun py_len :: "dval \<Rightarrow> error + nat" where
  "py_len (BoolArray bs) = Inr (length bs)"
| "py_len (FloatArray xs) = Inr (length xs)"
| "py_len (IntArray xs) = Inr (length xs)"
| "py_len (IntVal i) = Inl (TypeError ''object of type int has no len()'')"
| "py_len (FloatVal r) = Inl (TypeError ''object of type float has no len()'')"

fun equals_one :: "dval \<Rightarrow> bool list" where
  "equals_one (BoolArray bs) = bs"
| "equals_one (FloatArray xs) = map (\<lambda>x. x = 1) xs"
| "equals_one (IntArray xs) = map (\<lambda>x. x = 1) xs"
| "equals_one (IntVal i) = [i = 1]"
| "equals_one (FloatVal r) = [r = 1]"

definition np_where :: "bool list \<Rightarrow> nat list" where
  "np_where flags = filter (\<lambda>i. flags ! i) [0..<length flags]"

text \<open>What one flagged (sample, sensor) pair adds: the two process-lifetime counters,
  and for every risk of the sensor this call's contribution list, this call's per-sensor
  count and the process-lifetime history.\<close>

type_synonym contributions =
  "(string \<times> string list) list \<times> (string \<times> (string \<times> int) list) list \<times> RiskMappingAgent"

definition record_risk :: "string \<Rightarrow> string \<Rightarrow> contributions \<Rightarrow> contributions" where
  "record_risk sensor_name risk acc =
     (case acc of (rc, sc, self) \<Rightarrow>
        (defaultdict_update risk [] (\<lambda>l. l @ [sensor_name]) rc,
         defaultdict_update sensor_name [] (defaultdict_update risk 0 (\<lambda>c. c + 1)) sc,
         self\<lparr>risk_history :=
                defaultdict_update risk [] (defaultdict_update sensor_name 0 (\<lambda>c. c + 1))
                  (risk_history self)\<rparr>))"

definition record_anomaly :: "string \<Rightarrow> contributions \<Rightarrow> contributions" where
  "record_anomaly sensor_name acc =
     (case acc of (rc, sc, self) \<Rightarrow>
        fold (record_risk sensor_name) (dict_get SENSOR_RISK_MAP sensor_name [])
          (rc, sc,
           self\<lparr>sensor_anomaly_counts :=
                  defaultdict_update sensor_name 0 (\<lambda>c. c + 1) (sensor_anomaly_counts self),
                total_anomalies := total_anomalies self + 1\<rparr>))"

definition analyze_sample :: "DataFrame \<Rightarrow> nat \<Rightarrow> contributions \<Rightarrow> contributions" where
  "analyze_sample df idx acc =
     fold (\<lambda>sensor_name a.
             case map_of (columns df) sensor_name of
               None \<Rightarrow> a
             | Some col \<Rightarrow>
                 if is_sensor_anomalous sensor_name (col ! idx) df
                 then record_anomaly sensor_name a else a)
          (map fst SENSOR_RISK_MAP) acc"

text \<open>The loop over the anomalous samples. \<open>sensor_data.iloc[idx]\<close> raises IndexError
  for a row the frame does not have; what was counted before stays counted.\<close>

fun analyze_samples :: "DataFrame \<Rightarrow> nat list \<Rightarrow> contributions \<Rightarrow> error option \<times> contributions" where
  "analyze_samples df [] acc = (None, acc)"
| "analyze_samples df (idx # rest) acc =
     (if idx \<ge> nrows df
      then (Some (IndexError ''single positional indexer is out-of-bounds''), acc)
      else analyze_samples df rest (analyze_sample df idx acc))"

text \<open>\<open>map_anomalies_to_risks\<close>: the result and the agent after the call. Every
  exception inside is caught and answered with the empty mapping.\<close>

definition map_anomalies_to_risks ::
  "RiskMappingAgent \<Rightarrow> anomaly_data \<Rightarrow> risk_mapping_result \<times> RiskMappingAgent" where
  "map_anomalies_to_risks self anomaly_data =
     (let preds = (case predictions anomaly_data of None \<Rightarrow> IntArray [] | Some v \<Rightarrow> v)
      in case sensor_data anomaly_data of
           None \<Rightarrow> (empty_risk_mapping, self)
         | Some df \<Rightarrow>
             (case py_len preds of
                Inl e \<Rightarrow> (empty_risk_mapping, self)
              | Inr n \<Rightarrow>
                  if n = 0 then (empty_risk_mapping, self)
                  else
                    let anomalous_indices = np_where (equals_one preds)
                    in if length anomalous_indices = 0 then (empty_risk_mapping, self)
                       else
                         (case analyze_samples df anomalous_indices ([], [], self) of
                            (Some e, (rc, sc, self')) \<Rightarrow> (empty_risk_mapping, self')
                          | (None, (rc, sc, self')) \<Rightarrow>
                              let risk_distribution = calculate_risk_distribution rc
                              in (\<lparr>distribution = risk_distribution,
                                   majority_risk = identify_majority_risk risk_distribution rc,
                                   sensor_contributions = get_sensor_contributions sc,
                                   risk_details = get_risk_details rc,
                                   total_anomalies_analyzed = int (length anomalous_indices)\<rparr>,
                                  self'))))"

section \<open>FaultDetectionAgent\<close>

text \<open>The trained classifier is a collaborator outside the repository: it is taken as
  its two methods, on the preprocessed matrix.\<close>

type_synonym matrix = "real list list"

record classifier =
  predict :: "matrix \<Rightarrow> int list"
  predict_proba :: "matrix \<Rightarrow> real list list"

record FaultDetectionAgent =
  model :: "classifier option"
  threshold :: real

definition FaultDetectionAgent_init :: FaultDetectionAgent where
  "FaultDetectionAgent_init = \<lparr>model = None, threshold = 0.5\<rparr>"

text \<open>\<open>predict_proba(X)[:, 1]\<close>: the second column, an IndexError when there is none.\<close>

fun second_column :: "real list list \<Rightarrow> error + real list" where
  "second_column [] = Inr []"
| "second_column (row # rows) =
     (if length row < 2
      then Inl (IndexError ''index 1 is out of bounds for axis 1'')
      else bind_err (second_column rows) (\<lambda>rest. Inr (row ! 1 # rest)))"

definition row_max :: "real list \<Rightarrow> real" where
  "row_max row = fold max (tl row) (hd row)"

text \<open>The dict \<open>detect\<close> returns, from the arrays it has computed.\<close>

definition detection_dict ::
  "bool list \<Rightarrow> real list \<Rightarrow> int list \<Rightarrow> real list \<Rightarrow> real \<Rightarrow> detection_results" where
  "detection_dict anomaly_flags y_prob y_pred confidence rate =
     [(''anomaly_detected'', BoolArray anomaly_flags),
      (''attack_probability'', FloatArray y_prob),
      (''predictions'', IntArray y_pred),
      (''confidence'', FloatArray confidence),
      (''num_anomalies'', IntVal (np_sum_flags anomaly_flags)),
      (''anomaly_rate'', FloatVal rate)]"

definition detect :: "FaultDetectionAgent \<Rightarrow> matrix \<Rightarrow> error + detection_results" where
  "detect self X =
     (case model self of
        None \<Rightarrow> Inl (ValueError ''Model not trained. Call train() or load_model() first.'')
      | Some m \<Rightarrow>
          let y_pred = predict m X in
          bind_err (second_column (predict_proba m X)) (\<lambda>y_prob.
          let anomaly_flags = map (\<lambda>y. y = 1) y_pred;
              confidence = map row_max (predict_proba m X)
          in bind_err (np_mean_flags anomaly_flags) (\<lambda>rate.
             Inr (detection_dict anomaly_flags y_prob y_pred confidence rate))))"

section \<open>CoordinationAgent\<close>

text \<open>
  The coordinator holds whatever objects were registered and calls one method of each.
  A registered collaborator is therefore the behaviour of that method; \<open>None\<close> is an
  agent that was not registered. The risk mapper is the one collaborator with state of
  its own, which a call may change. A log entry is its level and message (the source
  also stamps it with the wall-clock time).
\<close>

record log_entry =
  level :: string
  message :: string

record 's risk_mapper =
  mapper_state :: 's
  mapper_call :: "'s \<Rightarrow> anomaly_data \<Rightarrow> (error + risk_mapping_result) \<times> 's"

record 's CoordinationAgent =
  perception_agent :: "(DataFrame \<Rightarrow> error + matrix \<times> string list) option"
  fault_detection_agent :: "(matrix \<Rightarrow> error + detection_results) option"
  cyber_risk_agent ::
    "(detection_results \<Rightarrow> string list option \<Rightarrow> error + cyber_assessment) option"
  operational_risk_agent ::
    "(detection_results \<Rightarrow> cyber_assessment \<Rightarrow> error + operational_assessment) option"
  decision_agent :: "(cyber_assessment \<Rightarrow> operational_assessment \<Rightarrow> error + decision) option"
  risk_mapping_agent :: "'s risk_mapper option"
  execution_log :: "log_entry list"
  system_state :: string

definition CoordinationAgent_init :: "'s CoordinationAgent" where
  "CoordinationAgent_init =
     \<lparr>perception_agent = None, fault_detection_agent = None, cyber_risk_agent = None,
      operational_risk_agent = None, decision_agent = None, risk_mapping_agent = None,
      execution_log = [], system_state = ''INITIALIZED''\<rparr>"

definition log_event :: "string \<Rightarrow> string \<Rightarrow> 's CoordinationAgent \<Rightarrow> 's CoordinationAgent" where
  "log_event msg lvl self =
     self\<lparr>execution_log := execution_log self @ [\<lparr>level = lvl, message = msg\<rparr>]\<rparr>"

definition register_agents ::
  "'s CoordinationAgent
   \<Rightarrow> (DataFrame \<Rightarrow> error + matrix \<times> string list) option
   \<Rightarrow> (matrix \<Rightarrow> error + detection_results) option
   \<Rightarrow> (detection_results \<Rightarrow> string list option \<Rightarrow> error + cyber_assessment) option
   \<Rightarrow> (detection_results \<Rightarrow> cyber_assessment \<Rightarrow> error + operational_assessment) option
   \<Rightarrow> (cyber_assessment \<Rightarrow> operational_assessment \<Rightarrow> error + decision) option
   \<Rightarrow> 's risk_mapper option
   \<Rightarrow> 's CoordinationAgent" where
  "register_agents self perception fault_detection cyber_risk operational_risk
       decision_making risk_mapping =
     log_event ''All agents registered'' ''INFO''
       (self\<lparr>perception_agent := perception,
             fault_detection_agent := fault_detection,
             cyber_risk_agent := cyber_risk,
             operational_risk_agent := operational_risk,
             decision_agent := decision_making,
             risk_mapping_agent := risk_mapping,
             system_state := ''READY''\<rparr>)"

text \<open>Calling a method on an attribute that is still \<open>None\<close> raises AttributeError
  with the message \<open>'NoneType' object has no attribute '<name>'\<close>.\<close>

definition none_attribute_error :: "string \<Rightarrow> error" where
  "none_attribute_error name =
     AttributeError ([CHR 0x27] @ ''NoneType'' @ [CHR 0x27] @ '' object has no attribute ''
                     @ [CHR 0x27] @ name @ [CHR 0x27])"

definition get_method :: "'a option \<Rightarrow> string \<Rightarrow> error + 'a" where
  "get_method agent name =
     (case agent of
        None \<Rightarrow> Inl (none_attribute_error name)
      | Some f \<Rightarrow> Inr f)"

text \<open>The mandatory chain of \<open>process_data\<close>: preprocessing, detection, the two
  assessments and the decision, stopping at the first exception.\<close>

record chain_result =
  chain_detection :: detection_results
  chain_cyber :: cyber_assessment
  chain_operational :: operational_assessment
  chain_decisions :: decision

definition mandatory_chain :: "'s CoordinationAgent \<Rightarrow> DataFrame \<Rightarrow> error + chain_result" where
  "mandatory_chain self raw_data =
     bind_err (get_method (perception_agent self) ''preprocess'') (\<lambda>preprocess.
     bind_err (preprocess raw_data) (\<lambda>(X_processed, timestamps).
     bind_err (get_method (fault_detection_agent self) ''detect'') (\<lambda>detect_method.
     bind_err (detect_method X_processed) (\<lambda>detection.
     bind_err (get_method (cyber_risk_agent self) ''assess_risk'') (\<lambda>cyber_method.
     bind_err (cyber_method detection (Some timestamps)) (\<lambda>cyber.
     bind_err (get_method (operational_risk_agent self) ''assess_risk'') (\<lambda>operational_method.
     bind_err (operational_method detection cyber) (\<lambda>operational.
     bind_err (get_method (decision_agent self) ''decide'') (\<lambda>decide_method.
     bind_err (decide_method cyber operational) (\<lambda>decisions.
       Inr \<lparr>chain_detection = detection, chain_cyber = cyber,
            chain_operational = operational, chain_decisions = decisions\<rparr>))))))))))"

text \<open>The risk-mapping step: the argument dict is built first, reading two keys of the
  detection results, then the mapper is called. The outcome is the mapper's answer or
  the exception raised on the way, and the mapper's state afterwards.\<close>

definition risk_mapping_step ::
  "'s risk_mapper \<Rightarrow> detection_results \<Rightarrow> DataFrame \<Rightarrow> (error + risk_mapping_result) \<times> 's" where
  "risk_mapping_step mapper detection raw_data =
     (case dict_getitem detection ''predictions'' of
        Inl e \<Rightarrow> (Inl e, mapper_state mapper)
      | Inr preds \<Rightarrow>
          (case dict_getitem detection ''attack_probabilities'' of
             Inl e \<Rightarrow> (Inl e, mapper_state mapper)
           | Inr probs \<Rightarrow>
               mapper_call mapper (mapper_state mapper)
                 \<lparr>predictions = Some preds, attack_probabilities = Some probs,
                  sensor_data = Some raw_data\<rparr>))"

text \<open>The two shapes of the dict \<open>process_data\<close> returns. \<open>risk_mapping\<close> is \<open>None\<close>
  when the key is absent; a mapping result is a dict of five keys and so is truthy in
  \<open>if risk_mapping_results\<close>.\<close>

record 'l success_result =
  status :: string
  result_system_state :: string
  result_detection_results :: detection_results
  result_cyber_assessment :: cyber_assessment
  result_operational_assessment :: operational_assessment
  result_decisions :: decision
  result_execution_log :: "'l list"
  risk_mapping :: "risk_mapping_result option"

record 'l error_result =
  error_status :: string
  error_system_state :: string
  error_message :: string
  error_execution_log :: "'l list"

datatype 'l pipeline_result = Success "'l success_result" | Failure "'l error_result"

definition process_data ::
  "'s CoordinationAgent \<Rightarrow> DataFrame \<Rightarrow> log_entry pipeline_result \<times> 's CoordinationAgent" where
  "process_data self raw_data =
     (let self1 = (log_event ''Starting data processing pipeline'' ''INFO'' self)
                    \<lparr>system_state := ''PROCESSING''\<rparr>
      in case mandatory_chain self1 raw_data of
           Inl e \<Rightarrow>
             let self2 = log_event (''Pipeline error: '' @ str_error e) ''ERROR''
                           (self1\<lparr>system_state := ''ERROR''\<rparr>)
             in (Failure \<lparr>error_status = ''ERROR'',
                          error_system_state = system_state self2,
                          error_message = str_error e,
                          error_execution_log = execution_log self2\<rparr>,
                 self2)
         | Inr chain \<Rightarrow>
             let (risk_mapping_results, self2) =
                   (case risk_mapping_agent self1 of
                      None \<Rightarrow> (None, self1)
                    | Some mapper \<Rightarrow>
                        (case risk_mapping_step mapper (chain_detection chain) raw_data of
                           (Inr r, st) \<Rightarrow>
                             (Some r,
                              log_event ''Risk mapping completed'' ''INFO''
                                (self1\<lparr>risk_mapping_agent :=
                                         Some (mapper\<lparr>mapper_state := st\<rparr>)\<rparr>))
                         | (Inl e, st) \<Rightarrow>
                             (None,
                              log_event (''Risk mapping error: '' @ str_error e) ''WARNING''
                                (self1\<lparr>risk_mapping_agent :=
                                         Some (mapper\<lparr>mapper_state := st\<rparr>)\<rparr>))));
                 self3 = log_event ''Pipeline completed successfully'' ''SUCCESS''
                           (self2\<lparr>system_state := ''COMPLETED''\<rparr>)
             in (Success \<lparr>status = ''SUCCESS'',
                          result_system_state = system_state self3,
                          result_detection_results = chain_detection chain,
                          result_cyber_assessment = chain_cyber chain,
                          result_operational_assessment = chain_operational chain,
                          result_decisions = chain_decisions chain,
                          result_execution_log = execution_log self3,
                          risk_mapping = risk_mapping_results\<rparr>,
                 self3))"

text \<open>The registered form of the repository's own agents.\<close>

definition risk_mapping_agent_of :: "RiskMappingAgent \<Rightarrow> RiskMappingAgent risk_mapper" where
  "risk_mapping_agent_of agent =
     \<lparr>mapper_state = agent,
      mapper_call = (\<lambda>st data. case map_anomalies_to_risks st data of (r, st') \<Rightarrow> (Inr r, st'))\<rparr>"

text \<open>The spec's words for the quantity the loop computes: the length of the longest
  block of consecutive positive labels in the batch.\<close>

definition longest_positive_run :: "bool list \<Rightarrow> nat" where
  "longest_positive_run flags = Max {n. sublist (replicate n True) flags}"


section \<open>Concrete batches\<close>

text \<open>A batch of 20 samples whose longest block of consecutive positive labels has
  length 7, with the detection results \<open>detect\<close> builds for it.\<close>

definition batch20_flags :: "bool list" where
  "batch20_flags =
     [False, True, True, True, True, True, True, True, False, False,
      True, True, False, True, True, True, False, False, True, False]"

definition batch20_detection :: detection_results where
  "batch20_detection =
     detection_dict batch20_flags
       (map (\<lambda>b. if b then 0.8 else 0.2) batch20_flags)
       (map (\<lambda>b. if b then 1 else 0) batch20_flags)
       (map (\<lambda>b. 0.8) batch20_flags)
       0.65"

text \<open>A batch of 100 samples with 85 positive labels: seven blocks of 12 positives,
  each followed by a negative, then one positive and eight negatives. In the first
  detection result every sample has attack probability 0.9; in the second the positive
  samples have 0.9 and the negative ones 0.1.\<close>

definition batch100_flags :: "bool list" where
  "batch100_flags =
     concat (replicate 7 (replicate 12 True @ [False])) @ [True] @ replicate 8 False"

definition batch100_uniform :: detection_results where
  "batch100_uniform =
     detection_dict batch100_flags
       (map (\<lambda>b. 0.9) batch100_flags)
       (map (\<lambda>b. if b then 1 else 0) batch100_flags)
       (map (\<lambda>b. 0.9) batch100_flags)
       0.85"

definition batch100_mixed :: detection_results where
  "batch100_mixed =
     detection_dict batch100_flags
       (map (\<lambda>b. if b then 0.9 else 0.1) batch100_flags)
       (map (\<lambda>b. if b then 1 else 0) batch100_flags)
       (map (\<lambda>b. 0.9) batch100_flags)
       0.85"

text \<open>A decision agent whose action lists repeat entries, within a list and between the
  cyber and the operational tier, and a pair of critical assessments.\<close>

definition overlapping_agent :: DecisionMakingAgent where
  "overlapping_agent =
     DecisionMakingAgent_init
       \<lparr>action_library :=
          [(''critical_cyber'',
              [''Isolate affected network segments'',
               ''Notify emergency response team'',
               ''Isolate affected network segments'']),
           (''high_cyber'', [''Restrict remote access'']),
           (''critical_operational'',
              [''Notify emergency response team'',
               ''Activate backup water supply'',
               ''Isolate affected network segments'']),
           (''high_operational'', [''Restrict remote access'']),
           (''medium_risk'', [''Notify maintenance team'']),
           (''low_risk'', [''Standard monitoring protocols''])]\<rparr>"

definition critical_cyber :: cyber_assessment where
  "critical_cyber =
     \<lparr>cyber_risk_score = 0.9, risk_level = ''critical'', avg_attack_probability = 0.9,
      max_attack_probability = 1, anomaly_count = 9, anomaly_rate = 0.9, temporal_risk = 0.9,
      attack_signature = ''Persistent Attack'',
      threat_assessment = generate_threat_assessment CRITICAL ''Persistent Attack''\<rparr>"

definition critical_operational :: operational_assessment where
  "critical_operational =
     \<lparr>operational_risk_score = 0.9, risk_level = ''critical'', fault_severity = ''Critical'',
      impact_level = ''high'', likelihood = ''critical'',
      affected_systems = [''Primary Treatment'', ''Distribution System'', ''Safety Systems''],
      estimated_downtime_minutes = 240,
      safety_impact = ''Severe - Immediate safety concerns'', mitigation_priority = 1\<rparr>"

text \<open>A two-sample batch with a coordinator over the repository's own agents, the same
  coordinator registered without a decision agent and without a risk mapper, and a
  coordinator whose detector also stores the key \<open>attack_probabilities\<close> and whose
  risk mapper raises.\<close>

definition demo_classifier :: classifier where
  "demo_classifier =
     \<lparr>predict = (\<lambda>X. [1, 0]),
      predict_proba = (\<lambda>X. [[0.2, 0.8], [0.9, 0.1]])\<rparr>"

definition demo_perception :: "DataFrame \<Rightarrow> error + matrix \<times> string list" where
  "demo_perception raw_data = Inr ([[0.5], [-0.5]], [''t0'', ''t1''])"

definition demo_frame :: DataFrame where
  "demo_frame = \<lparr>nrows = 2, columns = [(''LIT-101'', [1, 2])]\<rparr>"

definition demo_coordinator :: "RiskMappingAgent CoordinationAgent" where
  "demo_coordinator =
     register_agents CoordinationAgent_init
       (Some demo_perception)
       (Some (detect (FaultDetectionAgent_init\<lparr>model := Some demo_classifier\<rparr>)))
       (Some (cyber_assess_risk CyberRiskAssessmentAgent_init))
       (Some (operational_assess_risk OperationalRiskAssessmentAgent_init))
       (Some (decide DecisionMakingAgent_init))
       (Some (risk_mapping_agent_of RiskMappingAgent_init))"

definition demo_coordinator_without_decision :: "unit CoordinationAgent" where
  "demo_coordinator_without_decision =
     register_agents CoordinationAgent_init
       (Some demo_perception)
       (Some (detect (FaultDetectionAgent_init\<lparr>model := Some demo_classifier\<rparr>)))
       (Some (cyber_assess_risk CyberRiskAssessmentAgent_init))
       (Some (operational_assess_risk OperationalRiskAssessmentAgent_init))
       None
       None"

definition demo_detection :: detection_results where
  "demo_detection = detection_dict [True, False] [0.8, 0.1] [1, 0] [0.8, 0.9] 0.5"

definition failing_mapper :: "unit risk_mapper" where
  "failing_mapper =
     \<lparr>mapper_state = (),
      mapper_call = (\<lambda>st data. (Inl (ValueError ''mapping failed''), st))\<rparr>"

definition demo_detection_both :: detection_results where
  "demo_detection_both = demo_detection @ [(''attack_probabilities'', FloatArray [0.8, 0.1])]"

definition demo_detection_both_keys :: "matrix \<Rightarrow> error + detection_results" where
  "demo_detection_both_keys X = Inr demo_detection_both"

definition demo_coordinator_failing_mapper :: "unit CoordinationAgent" where
  "demo_coordinator_failing_mapper =
     register_agents CoordinationAgent_init
       (Some demo_perception)
       (Some demo_detection_both_keys)
       (Some (cyber_assess_risk CyberRiskAssessmentAgent_init))
       (Some (operational_assess_risk OperationalRiskAssessmentAgent_init))
       (Some (decide DecisionMakingAgent_init))
       (Some failing_mapper)"

text \<open>A sensor frame for the risk mapper: nine readings of one sensor with a single
  outlier in the last row; a call whose only positive prediction is the outlier row,
  with the contributions it collects, and a call without positive predictions.\<close>

definition outlier_column :: "real list" where
  "outlier_column = [0, 0, 0, 0, 0, 0, 0, 0, 1]"

definition outlier_frame :: DataFrame where
  "outlier_frame = \<lparr>nrows = 9, columns = [(''LIT-101'', outlier_column)]\<rparr>"

definition outlier_data :: anomaly_data where
  "outlier_data =
     \<lparr>predictions = Some (IntArray [0, 0, 0, 0, 0, 0, 0, 0, 1]),
      attack_probabilities = Some (FloatArray [0.1, 0.1, 0.1, 0.1, 0.1, 0.1, 0.1, 0.1, 0.9]),
      sensor_data = Some outlier_frame\<rparr>"

definition quiet_data :: anomaly_data where
  "quiet_data =
     \<lparr>predictions = Some (IntArray [0, 0, 0, 0, 0, 0, 0, 0, 0]),
      attack_probabilities = Some (FloatArray [0.1, 0.1, 0.1, 0.1, 0.1, 0.1, 0.1, 0.1, 0.1]),
      sensor_data = Some outlier_frame\<rparr>"

definition outlier_contributions :: "(string \<times> string list) list" where
  "outlier_contributions =
     [(''Water Overflow'', [''LIT-101'']),
      (''Process Interruption'', [''LIT-101'']),
      (''Data Tampering'', [''LIT-101''])]"

section \<open>Sequencing of fallible steps\<close>

lemma bind_err_Inr: "bind_err m f = Inr y \<longleftrightarrow> (\<exists>v. m = Inr v \<and> f v = Inr y)"
  by (cases m) (simp_all add: bind_err_def)

lemma bind_err_simps [simp]:
  "bind_err (Inr v) f = f v"
  "bind_err (Inl e) f = Inl e"
  by (simp_all add: bind_err_def)

section \<open>The temporal loop computes the longest positive run\<close>

lemma run_set_finite: "finite {n. sublist (replicate n True) flags}"
proof (rule finite_subset)
  show "{n. sublist (replicate n True) flags} \<subseteq> {..length flags}"
    using sublist_length_le by fastforce
qed simp

lemma run_set_nonempty: "0 \<in> {n. sublist (replicate n True) flags}"
  by simp

lemma sublist_replicate_snoc_False:
  "sublist (replicate n True) (xs @ False # ys) \<longleftrightarrow>
     sublist (replicate n True) xs \<or> sublist (replicate n True) ys"
proof
  assume "sublist (replicate n True) (xs @ False # ys)"
  then consider "sublist (replicate n True) xs" | "sublist (replicate n True) (False # ys)"
    | a b where "replicate n True = a @ b" "suffix a xs" "prefix b (False # ys)"
    by (auto simp: sublist_append)
  then show "sublist (replicate n True) xs \<or> sublist (replicate n True) ys"
  proof cases
    case 1
    then show ?thesis by simp
  next
    case 2
    then show ?thesis
      by (cases n) (auto simp: sublist_Cons_right prefix_Cons)
  next
    case 3
    show ?thesis
    proof (cases b)
      case Nil
      with 3 have "suffix (replicate n True) xs" by simp
      then show ?thesis by blast
    next
      case (Cons c cs)
      with 3 have "c = False" by (simp add: prefix_Cons)
      moreover have "c \<in> set (replicate n True)" using 3 Cons by simp
      ultimately show ?thesis by auto
    qed
  qed
next
  assume "sublist (replicate n True) xs \<or> sublist (replicate n True) ys"
  then show "sublist (replicate n True) (xs @ False # ys)"
    by (auto simp: sublist_append sublist_Cons_right)
qed

lemma longest_positive_run_False:
  "longest_positive_run (xs @ False # ys) =
     max (longest_positive_run xs) (longest_positive_run ys)"
proof -
  have "{n. sublist (replicate n True) (xs @ False # ys)} =
        {n. sublist (replicate n True) xs} \<union> {n. sublist (replicate n True) ys}"
    by (auto simp: sublist_replicate_snoc_False)
  then show ?thesis
    unfolding longest_positive_run_def
    using Max_Un[OF run_set_finite _ run_set_finite, of xs ys] run_set_nonempty
    by (metis empty_iff)
qed

lemma longest_positive_run_replicate: "longest_positive_run (replicate c True) = c"
proof -
  have "{n. sublist (replicate n True) (replicate c True)} = {..c}"
  proof (auto)
    fix n assume "sublist (replicate n True) (replicate c True)"
    then show "n \<le> c" using sublist_length_le by fastforce
  next
    fix n assume "n \<le> c"
    then have "replicate c True = replicate n True @ replicate (c - n) True"
      by (simp add: replicate_add[symmetric])
    then show "sublist (replicate n True) (replicate c True)"
      by (metis sublist_appendI append_Nil)
  qed
  moreover have "Max {..c} = c"
    by (rule Max_eqI) auto
  ultimately show ?thesis by (simp add: longest_positive_run_def)
qed

lemma longest_positive_run_ge_prefix:
  "c \<le> longest_positive_run (replicate c True @ xs)"
  unfolding longest_positive_run_def
  by (rule Max_ge[OF run_set_finite]) (simp add: sublist_def, metis append_Nil)

lemma temporal_loop_run:
  "cc \<le> mc \<Longrightarrow>
   temporal_loop xs cc mc = max mc (longest_positive_run (replicate cc True @ xs))"
proof (induction xs arbitrary: cc mc)
  case Nil
  then show ?case by (simp add: longest_positive_run_replicate)
next
  case (Cons flag rest)
  show ?case
  proof (cases flag)
    case True
    have eq: "replicate cc True @ True # rest = replicate (Suc cc) True @ rest"
      by (simp add: replicate_app_Cons_same)
    have ge: "Suc cc \<le> longest_positive_run (replicate (Suc cc) True @ rest)"
      by (rule longest_positive_run_ge_prefix)
    have "temporal_loop (flag # rest) cc mc = temporal_loop rest (Suc cc) (max mc (Suc cc))"
      using True by simp
    also have "\<dots> = max (max mc (Suc cc)) (longest_positive_run (replicate (Suc cc) True @ rest))"
      by (rule Cons.IH) simp
    also have "\<dots> = max mc (longest_positive_run (replicate (Suc cc) True @ rest))"
      using ge by linarith
    finally show ?thesis
      using True by (simp only: eq)
  next
    case False
    then show ?thesis
      using Cons.IH[of 0 mc] Cons.prems
      by (simp add: longest_positive_run_False longest_positive_run_replicate)
  qed
qed

lemma temporal_loop_longest: "temporal_loop flags 0 0 = longest_positive_run flags"
  using temporal_loop_run[of 0 0 flags] by simp

lemma analyze_temporal_pattern_run:
  "analyze_temporal_pattern flags =
     (if length flags < 10 then 0 else min 1 (real (longest_positive_run flags) / 10))"
  by (simp add: analyze_temporal_pattern_def temporal_loop_longest)

lemma batch20_run: "longest_positive_run batch20_flags = 7"
  unfolding temporal_loop_longest[symmetric] by (simp add: batch20_flags_def)

section \<open>Cyber risk assessment\<close>

lemma cyber_classify_init:
  "cyber_classify_risk_level CyberRiskAssessmentAgent_init score =
     Inr (if score < 0.3 then LOW else if score < 0.6 then MEDIUM
          else if score < 0.85 then HIGH else CRITICAL)"
  by (simp add: cyber_classify_risk_level_def CyberRiskAssessmentAgent_init_def dict_getitem_def)

text \<open>
  C5. The cyber agent, with the thresholds its constructor sets, classifies a score below
  0.3 as low, otherwise below 0.6 as medium, otherwise below 0.85 as high, and anything
  else as critical: each threshold belongs to the upper bucket. At the six boundary
  scores: 0.29 low, 0.30 medium, 0.59 medium, 0.60 high, 0.84 high, 0.85 critical.
\<close>

theorem cyber_risk_level_thresholds:
  "cyber_classify_risk_level CyberRiskAssessmentAgent_init score =
     Inr (if score < 0.3 then LOW else if score < 0.6 then MEDIUM
          else if score < 0.85 then HIGH else CRITICAL)
   \<and> cyber_classify_risk_level CyberRiskAssessmentAgent_init 0.29 = Inr LOW
   \<and> cyber_classify_risk_level CyberRiskAssessmentAgent_init 0.30 = Inr MEDIUM
   \<and> cyber_classify_risk_level CyberRiskAssessmentAgent_init 0.59 = Inr MEDIUM
   \<and> cyber_classify_risk_level CyberRiskAssessmentAgent_init 0.60 = Inr HIGH
   \<and> cyber_classify_risk_level CyberRiskAssessmentAgent_init 0.84 = Inr HIGH
   \<and> cyber_classify_risk_level CyberRiskAssessmentAgent_init 0.85 = Inr CRITICAL"
  by (simp add: cyber_classify_init)

lemmas cyber_eval_defs =
  cyber_assess_risk_def get_float_array_def get_bool_array_def dict_getitem_def
  np_max_def np_mean_def np_mean_flags_def np_sum_flags_def calculate_cyber_risk_score_def
  identify_attack_pattern_def mask_index_def analyze_temporal_pattern_def Let_def

text \<open>
  C4, as the code has it. The temporal-risk score of an assessment is computed from the
  labels only when timestamps are supplied and there are at least two of them; it is
  then 0 for a batch of fewer than 10 samples and otherwise the minimum of 1.0 and a
  tenth of the longest run of consecutive positive labels. Without timestamps, or with
  a single one, the score is 0 whatever the labels are.
\<close>

theorem temporal_risk_score_gated:
  assumes "cyber_assess_risk self d timestamps = Inr a"
    and "get_bool_array d ''anomaly_detected'' = Inr flags"
  shows "temporal_risk a =
           (if (case timestamps of None \<Rightarrow> False | Some ts \<Rightarrow> 1 < length ts)
            then (if length flags < 10 then 0
                  else min 1 (real (longest_positive_run flags) / 10))
            else 0)
         \<and> analyze_temporal_pattern flags =
           (if length flags < 10 then 0
            else min 1 (real (longest_positive_run flags) / 10))"
proof -
  from assms have "temporal_risk a =
      (case timestamps of None \<Rightarrow> 0
       | Some ts \<Rightarrow> if 1 < length ts then analyze_temporal_pattern flags else 0)"
    unfolding cyber_assess_risk_def Let_def
    by (auto simp: bind_err_Inr split: option.splits)
  then show ?thesis
    by (simp add: analyze_temporal_pattern_run split: option.splits)
qed

theorem temporal_risk_score_gated_witness:
  "map_sum id temporal_risk
     (cyber_assess_risk CyberRiskAssessmentAgent_init batch20_detection (Some [0::nat, 1]))
   = Inr 0.7"
proof -
  obtain a where a: "cyber_assess_risk CyberRiskAssessmentAgent_init batch20_detection
                       (Some [0::nat, 1]) = Inr a"
    by (simp add: cyber_eval_defs batch20_detection_def detection_dict_def batch20_flags_def cyber_classify_init)
  have f: "get_bool_array batch20_detection ''anomaly_detected'' = Inr batch20_flags"
    by (simp add: get_bool_array_def dict_getitem_def batch20_detection_def detection_dict_def)
  have "length batch20_flags = 20" by (simp add: batch20_flags_def)
  with temporal_risk_score_gated[OF a f] have "temporal_risk a = 0.7"
    by (simp add: batch20_run)
  with a show ?thesis by simp
qed

theorem temporal_risk_without_timestamps_counterexample:
  "length batch20_flags = 20
   \<and> longest_positive_run batch20_flags = 7
   \<and> get_bool_array batch20_detection ''anomaly_detected'' = Inr batch20_flags
   \<and> map_sum id temporal_risk
       (cyber_assess_risk CyberRiskAssessmentAgent_init batch20_detection
          (None :: nat list option)) = Inr 0
   \<and> min 1 (real (longest_positive_run batch20_flags) / 10) = 0.7"
proof -
  have "map_sum id temporal_risk
       (cyber_assess_risk CyberRiskAssessmentAgent_init batch20_detection
          (None :: nat list option)) = Inr 0"
    by (simp add: cyber_eval_defs batch20_detection_def detection_dict_def batch20_flags_def cyber_classify_init)
  moreover have "length batch20_flags = 20" by (simp add: batch20_flags_def)
  moreover have "get_bool_array batch20_detection ''anomaly_detected'' = Inr batch20_flags"
    by (simp add: get_bool_array_def dict_getitem_def batch20_detection_def detection_dict_def)
  ultimately show ?thesis by (simp add: batch20_run)
qed

section \<open>Mitigation planning\<close>

lemma dict_getitem_get:
  "map_of d k \<noteq> None \<Longrightarrow> dict_getitem d k = Inr (dict_get d k dflt)"
  by (auto simp: dict_getitem_def dict_get_def)

lemma action_library_keys:
  "map_of (action_library DecisionMakingAgent_init) ''critical_cyber'' \<noteq> None"
  "map_of (action_library DecisionMakingAgent_init) ''high_cyber'' \<noteq> None"
  "map_of (action_library DecisionMakingAgent_init) ''critical_operational'' \<noteq> None"
  "map_of (action_library DecisionMakingAgent_init) ''high_operational'' \<noteq> None"
  "map_of (action_library DecisionMakingAgent_init) ''medium_risk'' \<noteq> None"
  "map_of (action_library DecisionMakingAgent_init) ''low_risk'' \<noteq> None"
  by (simp_all add: DecisionMakingAgent_init_def)

lemma stage_actions_keys:
  "map_of (stage_actions DecisionMakingAgent_init) ''P2'' \<noteq> None"
  "map_of (stage_actions DecisionMakingAgent_init) ''P6'' \<noteq> None"
  by (simp_all add: DecisionMakingAgent_init_def)

lemma select_actions_tiers:
  assumes "select_actions self c ol f = Inr acts"
  shows "acts = dict_fromkeys (cyber_tier_actions (action_library self) c
                               @ operational_tier_actions (action_library self) ol f)"
proof -
  from assms obtain a b where
    a: "(if c = ''critical'' then dict_getitem (action_library self) ''critical_cyber''
         else if c = ''high'' then dict_getitem (action_library self) ''high_cyber''
         else Inr []) = Inr a"
    and b: "(if ol = ''critical'' \<or> f = ''Critical''
             then dict_getitem (action_library self) ''critical_operational''
             else if ol = ''high'' \<or> f = ''High''
             then dict_getitem (action_library self) ''high_operational''
             else if ol = ''medium''
             then dict_getitem (action_library self) ''medium_risk''
             else dict_getitem (action_library self) ''low_risk'') = Inr b"
    and acts: "acts = dict_fromkeys (a @ b)"
    unfolding select_actions_def by (auto simp: bind_err_Inr)
  have get: "dict_getitem d k = Inr v \<Longrightarrow> dict_get d k [] = v" for d :: "(string \<times> string list) list" and k v
    by (auto simp: dict_getitem_def dict_get_def split: option.splits)
  have "a = cyber_tier_actions (action_library self) c"
    using a by (auto simp: cyber_tier_actions_def get split: if_splits)
  moreover have "b = operational_tier_actions (action_library self) ol f"
    using b by (auto simp: operational_tier_actions_def get split: if_splits)
  ultimately show ?thesis using acts by simp
qed

lemma select_actions_init:
  "select_actions DecisionMakingAgent_init c ol f =
     Inr (dict_fromkeys
            (cyber_tier_actions (action_library DecisionMakingAgent_init) c
             @ operational_tier_actions (action_library DecisionMakingAgent_init) ol f))"
  by (simp add: select_actions_def cyber_tier_actions_def operational_tier_actions_def
        dict_getitem_get[OF action_library_keys(1), of "[]"]
        dict_getitem_get[OF action_library_keys(2), of "[]"]
        dict_getitem_get[OF action_library_keys(3), of "[]"]
        dict_getitem_get[OF action_library_keys(4), of "[]"]
        dict_getitem_get[OF action_library_keys(5), of "[]"]
        dict_getitem_get[OF action_library_keys(6), of "[]"])

lemma get_stage_actions_init:
  "\<exists>acts. get_stage_actions DecisionMakingAgent_init sys = Inr acts"
  by (simp add: get_stage_actions_def
       dict_getitem_get[OF stage_actions_keys(1), of "[]"]
       dict_getitem_get[OF stage_actions_keys(2), of "[]"])

lemma first_occurrences_snoc:
  "first_occurrences (xs @ [x]) = first_occurrences xs @ (if x \<in> set xs then [] else [x])"
proof -
  have a: "filter (\<lambda>i. (xs @ [x]) ! i \<notin> set (take i (xs @ [x]))) [0..<length xs]
         = filter (\<lambda>i. xs ! i \<notin> set (take i xs)) [0..<length xs]"
    by (rule filter_cong) (auto simp: nth_append)
  have b: "map (\<lambda>i. (xs @ [x]) ! i) (filter (\<lambda>i. xs ! i \<notin> set (take i xs)) [0..<length xs])
         = map (\<lambda>i. xs ! i) (filter (\<lambda>i. xs ! i \<notin> set (take i xs)) [0..<length xs])"
    by (rule map_cong) (auto simp: nth_append)
  have "first_occurrences (xs @ [x]) =
          map (\<lambda>i. (xs @ [x]) ! i)
            (filter (\<lambda>i. (xs @ [x]) ! i \<notin> set (take i (xs @ [x])))
               ([0..<length xs] @ [length xs]))"
    by (simp add: first_occurrences_def)
  also have "\<dots> = map (\<lambda>i. (xs @ [x]) ! i)
            (filter (\<lambda>i. (xs @ [x]) ! i \<notin> set (take i (xs @ [x]))) [0..<length xs])
          @ (if x \<in> set xs then [] else [x])"
    by (simp only: filter_append map_append) simp
  also have "\<dots> = first_occurrences xs @ (if x \<in> set xs then [] else [x])"
    by (simp only: a b first_occurrences_def)
  finally show ?thesis .
qed

lemma set_dict_fromkeys_fold:
  "set (fold (\<lambda>x keys. if x \<in> set keys then keys else keys @ [x]) xs acc) = set acc \<union> set xs"
  by (induction xs arbitrary: acc) auto

lemma set_dict_fromkeys: "set (dict_fromkeys xs) = set xs"
  by (simp add: dict_fromkeys_def set_dict_fromkeys_fold)

lemma dict_fromkeys_snoc:
  "dict_fromkeys (xs @ [x]) = dict_fromkeys xs @ (if x \<in> set xs then [] else [x])"
  using set_dict_fromkeys[of xs] by (simp add: dict_fromkeys_def)

lemma dict_fromkeys_first_occurrences: "dict_fromkeys xs = first_occurrences xs"
proof (induction xs rule: rev_induct)
  case Nil
  show ?case by (simp add: dict_fromkeys_def first_occurrences_def)
next
  case (snoc x xs)
  then show ?case by (simp only: dict_fromkeys_snoc first_occurrences_snoc)
qed

lemma distinct_dict_fromkeys: "distinct (dict_fromkeys xs)"
proof (induction xs rule: rev_induct)
  case Nil
  show ?case by (simp add: dict_fromkeys_def)
next
  case (snoc x xs)
  then show ?case by (simp add: dict_fromkeys_snoc set_dict_fromkeys)
qed

lemma decide_init_succeeds: "\<exists>dec. decide DecisionMakingAgent_init c ops = Inr dec"
proof -
  obtain acts where
    "get_stage_actions DecisionMakingAgent_init (affected_systems ops) = Inr acts"
    using get_stage_actions_init by blast
  then show ?thesis by (simp add: decide_def Let_def select_actions_init)
qed

lemma decide_recommended_actions:
  assumes "decide self c ops = Inr dec"
  shows "select_actions self (cyber_assessment.risk_level c)
           (operational_assessment.risk_level ops) (fault_severity ops)
         = Inr (recommended_actions dec)"
  using assms unfolding decide_def Let_def
  by (auto simp: bind_err_Inr)

text \<open>
  C9. Whatever the action library of the decision agent holds, the recommended action
  list of a decision has no duplicate entries and is the cyber-tier list followed by
  the operational/severity-tier list with every entry kept at its first occurrence, in
  that order; it is what \<open>_select_actions\<close> returns for the two levels and the fault
  severity. With the library the constructor sets, the decision succeeds for every pair
  of assessments.
\<close>

theorem recommended_actions_deduplicated:
  assumes "decide self c ops = Inr dec"
  shows "distinct (recommended_actions dec)
     \<and> recommended_actions dec =
         first_occurrences
           (cyber_tier_actions (action_library self) (cyber_assessment.risk_level c)
            @ operational_tier_actions (action_library self)
                (operational_assessment.risk_level ops) (fault_severity ops))
     \<and> select_actions self (cyber_assessment.risk_level c)
         (operational_assessment.risk_level ops) (fault_severity ops)
         = Inr (recommended_actions dec)
     \<and> (\<exists>dec'. decide DecisionMakingAgent_init c ops = Inr dec')"
proof -
  note sel = decide_recommended_actions[OF assms]
  let ?tiers = "cyber_tier_actions (action_library self) (cyber_assessment.risk_level c)
            @ operational_tier_actions (action_library self)
                (operational_assessment.risk_level ops) (fault_severity ops)"
  have eq: "recommended_actions dec = dict_fromkeys ?tiers"
    by (rule select_actions_tiers[OF sel])
  have "distinct (recommended_actions dec)"
    unfolding eq by (rule distinct_dict_fromkeys)
  moreover have "recommended_actions dec = first_occurrences ?tiers"
    unfolding eq by (rule dict_fromkeys_first_occurrences)
  ultimately show ?thesis
    using sel decide_init_succeeds[of c ops] by blast
qed

theorem recommended_actions_deduplicated_witness:
  "\<exists>dec. decide overlapping_agent critical_cyber critical_operational = Inr dec
     \<and> recommended_actions dec =
         [''Isolate affected network segments'',
          ''Notify emergency response team'',
          ''Activate backup water supply'']
     \<and> length (cyber_tier_actions (action_library overlapping_agent) ''critical''
               @ operational_tier_actions (action_library overlapping_agent)
                   ''critical'' ''Critical'') = 6
     \<and> distinct (recommended_actions dec)"
proof -
  have lib: "action_library overlapping_agent =
          [(''critical_cyber'',
              [''Isolate affected network segments'',
               ''Notify emergency response team'',
               ''Isolate affected network segments'']),
           (''high_cyber'', [''Restrict remote access'']),
           (''critical_operational'',
              [''Notify emergency response team'',
               ''Activate backup water supply'',
               ''Isolate affected network segments'']),
           (''high_operational'', [''Restrict remote access'']),
           (''medium_risk'', [''Notify maintenance team'']),
           (''low_risk'', [''Standard monitoring protocols''])]"
    by (simp add: overlapping_agent_def)
  have st: "stage_actions overlapping_agent = stage_actions DecisionMakingAgent_init"
    by (simp add: overlapping_agent_def)
  have tiers: "cyber_tier_actions (action_library overlapping_agent) ''critical''
               @ operational_tier_actions (action_library overlapping_agent)
                   ''critical'' ''Critical''
             = [''Isolate affected network segments'',
                ''Notify emergency response team'',
                ''Isolate affected network segments'',
                ''Notify emergency response team'',
                ''Activate backup water supply'',
                ''Isolate affected network segments'']"
    by (simp add: lib cyber_tier_actions_def operational_tier_actions_def dict_get_def)
  have levels: "cyber_assessment.risk_level critical_cyber = ''critical''"
    "operational_assessment.risk_level critical_operational = ''critical''"
    "fault_severity critical_operational = ''Critical''"
    by (simp_all add: critical_cyber_def critical_operational_def)
  have sel: "\<exists>acts. select_actions overlapping_agent ''critical'' ''critical'' ''Critical''
               = Inr acts"
    by (simp add: select_actions_def lib dict_getitem_def)
  have stage: "\<exists>acts. get_stage_actions overlapping_agent
                 (affected_systems critical_operational) = Inr acts"
    by (simp add: get_stage_actions_def st
          dict_getitem_get[OF stage_actions_keys(1), of "[]"]
          dict_getitem_get[OF stage_actions_keys(2), of "[]"])
  obtain dec where dec: "decide overlapping_agent critical_cyber critical_operational = Inr dec"
    using sel stage by (auto simp: decide_def Let_def levels)
  have first: "first_occurrences
             [''Isolate affected network segments'',
              ''Notify emergency response team'',
              ''Isolate affected network segments'',
              ''Notify emergency response team'',
              ''Activate backup water supply'',
              ''Isolate affected network segments'']
           = [''Isolate affected network segments'',
              ''Notify emergency response team'',
              ''Activate backup water supply'']"
    unfolding dict_fromkeys_first_occurrences[symmetric]
    by (simp add: dict_fromkeys_def)
  note ded = recommended_actions_deduplicated[OF dec, unfolded levels tiers first]
  have r: "recommended_actions dec =
          [''Isolate affected network segments'',
           ''Notify emergency response team'',
           ''Activate backup water supply'']"
    by (rule conjunct1[OF conjunct2[OF ded]])
  have d: "distinct (recommended_actions dec)"
    by (rule conjunct1[OF ded])
  have l: "length (cyber_tier_actions (action_library overlapping_agent) ''critical''
               @ operational_tier_actions (action_library overlapping_agent)
                   ''critical'' ''Critical'') = 6"
    unfolding tiers by simp
  show ?thesis
    by (intro exI[of _ dec] conjI dec r l d)
qed

section \<open>The end-to-end scenario\<close>

lemma sum_flags_count:
  "sum_list (map (\<lambda>b. if b then 1 else 0) flags) = real (length (filter (\<lambda>b. b) flags))"
  by (induction flags) auto

lemma np_mean_flags_count:
  "flags \<noteq> [] \<Longrightarrow>
   np_mean_flags flags = Inr (real (length (filter (\<lambda>b. b) flags)) / real (length flags))"
  by (simp add: np_mean_flags_def np_mean_def sum_flags_count)

lemma mask_index_length:
  "length xs = length flags \<Longrightarrow>
   \<exists>ys. mask_index xs flags = Inr ys \<and> length ys = length (filter (\<lambda>b. b) flags)"
proof -
  assume len: "length xs = length flags"
  have "length (filter snd (zip xs flags)) = length (filter (\<lambda>b. b) flags)"
    using len by (induction xs flags rule: list_induct2) auto
  then show ?thesis using len by (simp add: mask_index_def)
qed

lemma identify_attack_pattern_persistent:
  assumes "length probs = length flags"
    and "np_mean_flags flags = Inr rate" and "rate > 0.8"
  shows "identify_attack_pattern flags probs = Inr ''Persistent Attack''"
proof (cases "list_ex (\<lambda>b. b) flags")
  case False
  then show ?thesis using assms by (simp add: identify_attack_pattern_def)
next
  case True
  then have pos: "filter (\<lambda>b. b) flags \<noteq> []"
    by (auto simp: list_ex_iff filter_empty_conv)
  obtain ys where ys: "mask_index probs flags = Inr ys"
      "length ys = length (filter (\<lambda>b. b) flags)"
    using mask_index_length[OF assms(1)] by blast
  with pos have "ys \<noteq> []" by auto
  then obtain m where "np_mean ys = Inr m" by (simp add: np_mean_def)
  then show ?thesis
    using True ys assms by (simp add: identify_attack_pattern_def)
qed

lemma operational_scenario:
  assumes "cyber_assessment.risk_level c = ''critical''"
    and "get_float d ''anomaly_rate'' = Inr 0.85"
    and "get_int d ''num_anomalies'' = Inr 85"
  shows "operational_assess_risk OperationalRiskAssessmentAgent_init d c =
     Inr \<lparr>operational_risk_score = 0.9, risk_level = ''critical'',
          fault_severity = ''Critical'', impact_level = ''high'', likelihood = ''critical'',
          affected_systems = [''Primary Treatment'', ''Distribution System'', ''Safety Systems''],
          estimated_downtime_minutes = 240,
          safety_impact = ''Severe - Immediate safety concerns'',
          mitigation_priority = 1\<rparr>"
proof -
  have imp: "assess_impact (17 / 20) 85 = ''high''" by (simp add: assess_impact_def)
  have sc: "calculate_operational_risk OperationalRiskAssessmentAgent_init ''critical'' ''high''
              = 9 / 10"
    by (simp add: calculate_operational_risk_def likelihood_map_def dict_get_def
          OperationalRiskAssessmentAgent_init_def)
  have sev: "assess_fault_severity (9 / 10) (17 / 20) = ''Critical''"
    by (simp add: assess_fault_severity_def)
  have aff: "identify_affected_systems 85 (17 / 20) =
       [''Primary Treatment'', ''Distribution System'', ''Safety Systems'']"
    by (simp add: identify_affected_systems_def)
  have down: "estimate_downtime ''Critical'' ''high'' = 240"
    by (simp add: estimate_downtime_def downtime_map_def dict_get_def)
  have lvl: "operational_classify_risk_level (9 / 10) = CRITICAL"
    by (simp add: operational_classify_risk_level_def)
  have saf: "assess_safety_impact (9 / 10) = ''Severe - Immediate safety concerns''"
    by (simp add: assess_safety_impact_def)
  have pri: "determine_priority (9 / 10) ''Critical'' = 1"
    by (simp add: determine_priority_def)
  show ?thesis
    by (simp add: operational_assess_risk_def assms Let_def imp sc sev aff down lvl saf pri)
qed

lemma decide_scenario:
  assumes "cyber_assessment.risk_level c = ''critical''"
    and "operational_assessment.risk_level ops = ''critical''"
    and "estimated_downtime_minutes ops = 240"
  shows "\<exists>dec. decide DecisionMakingAgent_init c ops = Inr dec
     \<and> primary_threat dec = ''Combined Cyber-Physical Threat''
     \<and> requires_human_approval_flag dec
     \<and> response_timeline dec = ''IMMEDIATE (0-5 minutes)''
     \<and> estimated_resolution_time dec = 240"
proof -
  obtain acts where
    "get_stage_actions DecisionMakingAgent_init (affected_systems ops) = Inr acts"
    using get_stage_actions_init by blast
  moreover have "identify_primary_threat ''critical'' ''critical'' = ''Combined Cyber-Physical Threat''"
    by (simp add: identify_primary_threat_def risk_scores_def dict_get_def)
  ultimately show ?thesis
    by (simp add: decide_def Let_def select_actions_init assms
          requires_human_approval_def calculate_response_timeline_def)
qed

lemma detection_dict_reads:
  "get_float_array (detection_dict flags probs preds conf r) ''attack_probability'' = Inr probs"
  "get_bool_array (detection_dict flags probs preds conf r) ''anomaly_detected'' = Inr flags"
  "get_float (detection_dict flags probs preds conf r) ''anomaly_rate'' = Inr r"
  "get_int (detection_dict flags probs preds conf r) ''num_anomalies'' = Inr (np_sum_flags flags)"
  "dict_getitem (detection_dict flags probs preds conf r) ''predictions'' = Inr (IntArray preds)"
  "dict_getitem (detection_dict flags probs preds conf r) ''attack_probabilities''
     = Inl (KeyError ''attack_probabilities'')"
  by (simp_all add: get_float_array_def get_bool_array_def get_float_def get_int_def
        dict_getitem_def detection_dict_def)

lemma cyber_scenario:
  assumes len: "length flags = 100" "length probs = 100"
    and pos: "length (filter (\<lambda>b. b) flags) = 85"
    and mean: "sum_list probs / 100 = m" and m: "59 / 80 \<le> m" "m \<le> 1"
    and run: "longest_positive_run flags = 12"
    and ts: "1 < length ts"
  shows "\<exists>c. cyber_assess_risk CyberRiskAssessmentAgent_init
               (detection_dict flags probs preds conf r) (Some ts) = Inr c
     \<and> temporal_risk c = 1 \<and> cyber_assessment.anomaly_rate c = 0.85
     \<and> cyber_risk_score c = 0.4 * m + 0.555
     \<and> cyber_assessment.risk_level c = ''critical''
     \<and> attack_signature c = ''Persistent Attack''
     \<and> avg_attack_probability c = m"
proof -
  have ne: "flags \<noteq> []" "probs \<noteq> []" using len by auto
  have rate: "np_mean_flags flags = Inr (17 / 20)"
    using np_mean_flags_count[OF ne(1)] len pos by simp
  have avg: "np_mean probs = Inr m"
    using mean len ne by (simp add: np_mean_def)
  obtain mx where mx: "np_max probs = Inr mx" using ne by (simp add: np_max_def)
  have temp: "analyze_temporal_pattern flags = 1"
    using len run by (simp add: analyze_temporal_pattern_run)
  have score: "calculate_cyber_risk_score m (17 / 20) 1 = 0.4 * m + 0.555"
    using m by (simp add: calculate_cyber_risk_score_def)
  have "cyber_classify_risk_level CyberRiskAssessmentAgent_init (0.4 * m + 0.555)
               = Inr CRITICAL"
    using m by (simp add: cyber_classify_init)
  then have lvl: "cyber_classify_risk_level CyberRiskAssessmentAgent_init
               (calculate_cyber_risk_score m (17 / 20) 1) = Inr CRITICAL"
    by (simp only: score)
  have sig: "identify_attack_pattern flags probs = Inr ''Persistent Attack''"
    by (rule identify_attack_pattern_persistent[OF _ rate]) (use len in simp_all)
  show ?thesis
    using ts
    by (simp add: cyber_assess_risk_def detection_dict_reads mx avg rate temp Let_def
          lvl sig)
       (simp add: score)
qed

lemma batch100_facts:
  "length batch100_flags = 100"
  "length (filter (\<lambda>b. b) batch100_flags) = 85"
  "temporal_loop batch100_flags 0 0 = 12"
  by (code_simp)+

lemma batch100_run: "longest_positive_run batch100_flags = 12"
  unfolding temporal_loop_longest[symmetric] by (rule batch100_facts(3))

lemma sum_list_by_flag:
  "sum_list (map (\<lambda>b. if b then p else q) flags) =
     p * real (length (filter (\<lambda>b. b) flags))
     + q * real (length (filter (\<lambda>b. \<not> b) flags))"
  by (induction flags) (auto simp: algebra_simps)

lemma masked_by_flag:
  "map fst (filter snd (zip (map (\<lambda>b. if b then p else q) flags) flags))
     = replicate (length (filter (\<lambda>b. b) flags)) p"
  by (induction flags) auto

lemma length_filter_not:
  "length (filter (\<lambda>b. \<not> b) flags) = length flags - length (filter (\<lambda>b. b) flags)"
  using sum_length_filter_compl[of "\<lambda>b. b" flags] by simp

text \<open>
  C1, as the code has it. For a 100-sample batch with 85 positive labels, a computed
  mean attack probability over the whole batch within \<open>10\<^sup>-\<^sup>9\<close> of 0.90, a longest run of 12
  consecutive positives and timestamps supplied, the three agents succeed and give:
  temporal risk 1.0, anomaly rate 0.85, a cyber risk score within \<open>10\<^sup>-\<^sup>9\<close> of 0.915 with
  level critical and signature "Persistent Attack";
  operational impact "high", likelihood "critical" (normalised to "high" for the matrix
  lookup), operational score 0.9 with level critical, combined score 0.875 and fault
  severity "Critical", affected systems Primary Treatment, Distribution System and Safety
  Systems, downtime 240 minutes, priority 1; primary threat "Combined Cyber-Physical
  Threat", human approval required, response timeline "IMMEDIATE (0-5 minutes)" and
  estimated resolution 240 minutes.
\<close>

theorem end_to_end_scenario:
  assumes "length flags = 100" and "length probs = 100"
    and "length (filter (\<lambda>b. b) flags) = 85"
    and "np_mean probs = Inr m" and "\<bar>m - 0.9\<bar> \<le> 1 / 10 ^ 9"
    and "longest_positive_run flags = 12"
    and "1 < length ts"
  shows "\<exists>c ops dec.
       cyber_assess_risk CyberRiskAssessmentAgent_init
         (detection_dict flags probs preds conf 0.85) (Some ts) = Inr c
     \<and> operational_assess_risk OperationalRiskAssessmentAgent_init
         (detection_dict flags probs preds conf 0.85) c = Inr ops
     \<and> decide DecisionMakingAgent_init c ops = Inr dec
     \<and> temporal_risk c = 1
     \<and> cyber_assessment.anomaly_rate c = 0.85
     \<and> avg_attack_probability c = m
     \<and> \<bar>cyber_risk_score c - 0.915\<bar> \<le> 1 / 10 ^ 9
     \<and> cyber_assessment.risk_level c = ''critical''
     \<and> attack_signature c = ''Persistent Attack''
     \<and> impact_level ops = ''high''
     \<and> likelihood ops = ''critical''
     \<and> dict_get likelihood_map (likelihood ops) ''medium'' = ''high''
     \<and> operational_risk_score ops = 0.9
     \<and> operational_assessment.risk_level ops = ''critical''
     \<and> (operational_risk_score ops + 0.85) / 2 = 0.875
     \<and> fault_severity ops = ''Critical''
     \<and> affected_systems ops =
           [''Primary Treatment'', ''Distribution System'', ''Safety Systems'']
     \<and> estimated_downtime_minutes ops = 240
     \<and> mitigation_priority ops = 1
     \<and> primary_threat dec = ''Combined Cyber-Physical Threat''
     \<and> requires_human_approval_flag dec
     \<and> response_timeline dec = ''IMMEDIATE (0-5 minutes)''
     \<and> estimated_resolution_time dec = 240"
proof -
  have mean: "sum_list probs / 100 = m"
    using assms(2,4) by (auto simp: np_mean_def split: if_splits)
  from assms(5) have near: "m - 0.9 \<le> 1 / 10 ^ 9" "- (m - 0.9) \<le> 1 / 10 ^ 9"
    by (simp_all only: abs_le_iff)
  have m: "59 / 80 \<le> m" "m \<le> 1"
    using near by simp_all
  obtain c where c:
    "cyber_assess_risk CyberRiskAssessmentAgent_init
         (detection_dict flags probs preds conf 0.85) (Some ts) = Inr c"
    "temporal_risk c = 1" "cyber_assessment.anomaly_rate c = 0.85"
    "cyber_risk_score c = 0.4 * m + 0.555"
    "cyber_assessment.risk_level c = ''critical''"
    "attack_signature c = ''Persistent Attack''"
    "avg_attack_probability c = m"
    using cyber_scenario[OF assms(1-3) mean m assms(6,7), of preds conf "0.85"] by auto
  have "cyber_risk_score c - 0.915 \<le> 1 / 10 ^ 9"
    and "- (cyber_risk_score c - 0.915) \<le> 1 / 10 ^ 9"
    using near by (simp_all add: c(4))
  then have score: "\<bar>cyber_risk_score c - 0.915\<bar> \<le> 1 / 10 ^ 9"
    by (simp only: abs_le_iff)
  have n: "get_int (detection_dict flags probs preds conf 0.85) ''num_anomalies'' = Inr 85"
    using assms(3) by (simp add: detection_dict_reads np_sum_flags_def)
  note ops = operational_scenario[OF c(5) detection_dict_reads(3) n]
  obtain dec where dec: "decide DecisionMakingAgent_init c
       \<lparr>operational_risk_score = 0.9, risk_level = ''critical'',
          fault_severity = ''Critical'', impact_level = ''high'', likelihood = ''critical'',
          affected_systems = [''Primary Treatment'', ''Distribution System'', ''Safety Systems''],
          estimated_downtime_minutes = 240,
          safety_impact = ''Severe - Immediate safety concerns'',
          mitigation_priority = 1\<rparr> = Inr dec"
     "primary_threat dec = ''Combined Cyber-Physical Threat''"
     "requires_human_approval_flag dec"
     "response_timeline dec = ''IMMEDIATE (0-5 minutes)''"
     "estimated_resolution_time dec = 240"
    using decide_scenario[OF c(5), of "\<lparr>operational_risk_score = 0.9, risk_level = ''critical'',
          fault_severity = ''Critical'', impact_level = ''high'', likelihood = ''critical'',
          affected_systems = [''Primary Treatment'', ''Distribution System'', ''Safety Systems''],
          estimated_downtime_minutes = 240,
          safety_impact = ''Severe - Immediate safety concerns'',
          mitigation_priority = 1\<rparr>"] by auto
  have lik: "dict_get likelihood_map ''critical'' ''medium'' = ''high''"
    by (simp add: likelihood_map_def dict_get_def)
  show ?thesis
    apply (rule exI[of _ c])
    apply (rule exI[of _ "\<lparr>operational_risk_score = 0.9, risk_level = ''critical'',
          fault_severity = ''Critical'', impact_level = ''high'', likelihood = ''critical'',
          affected_systems = [''Primary Treatment'', ''Distribution System'', ''Safety Systems''],
          estimated_downtime_minutes = 240,
          safety_impact = ''Severe - Immediate safety concerns'',
          mitigation_priority = 1\<rparr>"])
    apply (rule exI[of _ dec])
    using c(1,2,3,5,6,7) score ops dec lik by simp
qed

theorem end_to_end_scenario_witness:
  "(\<exists>m. np_mean (map (\<lambda>b. 0.9) batch100_flags) = Inr m \<and> \<bar>m - 0.9\<bar> \<le> 1 / 10 ^ 9)
   \<and> (\<exists>c ops dec.
       cyber_assess_risk CyberRiskAssessmentAgent_init batch100_uniform (Some [0::nat, 1]) = Inr c
     \<and> operational_assess_risk OperationalRiskAssessmentAgent_init batch100_uniform c = Inr ops
     \<and> decide DecisionMakingAgent_init c ops = Inr dec
     \<and> \<bar>cyber_risk_score c - 0.915\<bar> \<le> 1 / 10 ^ 9
     \<and> cyber_assessment.risk_level c = ''critical''
     \<and> operational_risk_score ops = 0.9
     \<and> estimated_downtime_minutes ops = 240
     \<and> response_timeline dec = ''IMMEDIATE (0-5 minutes)''
     \<and> estimated_resolution_time dec = 240)"
proof -
  have m: "np_mean (map (\<lambda>b. 0.9::real) batch100_flags) = Inr 0.9"
    using batch100_facts(1) by (auto simp: np_mean_def sum_list_triv)
  have tol: "\<bar>(0.9::real) - 0.9\<bar> \<le> 1 / 10 ^ 9" by simp
  have l: "length (map (\<lambda>b. 0.9::real) batch100_flags) = 100"
    by (simp add: batch100_facts)
  have t: "1 < length [0::nat, 1]" by simp
  from end_to_end_scenario[OF batch100_facts(1) l batch100_facts(2) m tol batch100_run t,
      of "map (\<lambda>b. if b then 1 else 0) batch100_flags" "map (\<lambda>b. 0.9) batch100_flags"]
  have "\<exists>c ops dec.
       cyber_assess_risk CyberRiskAssessmentAgent_init batch100_uniform (Some [0::nat, 1]) = Inr c
     \<and> operational_assess_risk OperationalRiskAssessmentAgent_init batch100_uniform c = Inr ops
     \<and> decide DecisionMakingAgent_init c ops = Inr dec
     \<and> \<bar>cyber_risk_score c - 0.915\<bar> \<le> 1 / 10 ^ 9
     \<and> cyber_assessment.risk_level c = ''critical''
     \<and> operational_risk_score ops = 0.9
     \<and> estimated_downtime_minutes ops = 240
     \<and> response_timeline dec = ''IMMEDIATE (0-5 minutes)''
     \<and> estimated_resolution_time dec = 240"
    unfolding batch100_uniform_def by blast
  moreover have "\<exists>m. np_mean (map (\<lambda>b. 0.9) batch100_flags) = Inr m
                    \<and> \<bar>m - 0.9\<bar> \<le> 1 / 10 ^ 9"
    by (intro exI[of _ "0.9"] conjI m tol)
  ultimately show ?thesis by simp
qed

theorem end_to_end_scenario_counterexample:
  "length batch100_flags = 100
   \<and> length (filter (\<lambda>b. b) batch100_flags) = 85
   \<and> longest_positive_run batch100_flags = 12
   \<and> bind_err (mask_index (map (\<lambda>b. if b then 0.9 else 0.1) batch100_flags) batch100_flags)
        np_mean = Inr 0.9
   \<and> bind_err (cyber_assess_risk CyberRiskAssessmentAgent_init batch100_mixed (Some [0::nat, 1]))
        (\<lambda>c. bind_err (operational_assess_risk OperationalRiskAssessmentAgent_init batch100_mixed c)
        (\<lambda>ops. bind_err (decide DecisionMakingAgent_init c ops)
        (\<lambda>dec. Inr (cyber_risk_score c, response_timeline dec))))
      = Inr (0.867, ''IMMEDIATE (0-5 minutes)'')
   \<and> (0.867 :: real) \<noteq> 0.915
   \<and> ''IMMEDIATE (0-5 minutes)'' \<noteq> ''IMMEDIATE (0-5 min)''"
proof -
  let ?probs = "map (\<lambda>b. if b then 0.9 else 0.1 :: real) batch100_flags"
  let ?preds = "map (\<lambda>b. if b then 1 else 0 :: int) batch100_flags"
  let ?conf = "map (\<lambda>b. 0.9 :: real) batch100_flags"
  have sum: "sum_list ?probs = 78"
    by (simp add: sum_list_by_flag length_filter_not batch100_facts)
  have m: "sum_list ?probs / 100 = 0.78" by (simp add: sum)
  have l: "length ?probs = 100" by (simp add: batch100_facts)
  have t: "1 < length [0::nat, 1]" by simp
  obtain c where c:
    "cyber_assess_risk CyberRiskAssessmentAgent_init
         (detection_dict batch100_flags ?probs ?preds ?conf 0.85) (Some [0::nat, 1]) = Inr c"
    "cyber_risk_score c = 0.4 * 0.78 + 0.555"
    "cyber_assessment.risk_level c = ''critical''"
    using cyber_scenario[OF batch100_facts(1) l batch100_facts(2) m _ _ batch100_run t,
        of ?preds ?conf "0.85"] by auto
  have n: "get_int (detection_dict batch100_flags ?probs ?preds ?conf 0.85) ''num_anomalies''
             = Inr 85"
    by (simp add: detection_dict_reads np_sum_flags_def batch100_facts)
  note ops = operational_scenario[OF c(3) detection_dict_reads(3) n]
  obtain dec where dec: "decide DecisionMakingAgent_init c
       \<lparr>operational_risk_score = 0.9, risk_level = ''critical'',
          fault_severity = ''Critical'', impact_level = ''high'', likelihood = ''critical'',
          affected_systems = [''Primary Treatment'', ''Distribution System'', ''Safety Systems''],
          estimated_downtime_minutes = 240,
          safety_impact = ''Severe - Immediate safety concerns'',
          mitigation_priority = 1\<rparr> = Inr dec"
     "response_timeline dec = ''IMMEDIATE (0-5 minutes)''"
    using decide_scenario[OF c(3), of "\<lparr>operational_risk_score = 0.9, risk_level = ''critical'',
          fault_severity = ''Critical'', impact_level = ''high'', likelihood = ''critical'',
          affected_systems = [''Primary Treatment'', ''Distribution System'', ''Safety Systems''],
          estimated_downtime_minutes = 240,
          safety_impact = ''Severe - Immediate safety concerns'',
          mitigation_priority = 1\<rparr>"] by auto
  have chain: "bind_err (cyber_assess_risk CyberRiskAssessmentAgent_init batch100_mixed (Some [0::nat, 1]))
        (\<lambda>c. bind_err (operational_assess_risk OperationalRiskAssessmentAgent_init batch100_mixed c)
        (\<lambda>ops. bind_err (decide DecisionMakingAgent_init c ops)
        (\<lambda>dec. Inr (cyber_risk_score c, response_timeline dec))))
      = Inr (0.867, ''IMMEDIATE (0-5 minutes)'')"
    unfolding batch100_mixed_def using c ops dec by simp
  have masked: "map fst (filter snd (zip ?probs batch100_flags))
                  = replicate (length (filter (\<lambda>b. b) batch100_flags)) 0.9"
    by (rule masked_by_flag)
  have pm: "bind_err (mask_index ?probs batch100_flags) np_mean = Inr 0.9"
    by (simp add: mask_index_def masked batch100_facts np_mean_def sum_list_replicate)
  show ?thesis
    using chain pm by (simp add: batch100_facts batch100_run)
qed


section \<open>The coordinator\<close>

lemma mandatory_chain_agents_only [simp]:
  "mandatory_chain (log_event msg lvl self) raw = mandatory_chain self raw"
  "mandatory_chain (self\<lparr>system_state := s\<rparr>) raw = mandatory_chain self raw"
  by (simp_all add: mandatory_chain_def log_event_def)

lemma mandatory_chain_unregistered:
  assumes "perception_agent self = None \<or> fault_detection_agent self = None
         \<or> cyber_risk_agent self = None \<or> operational_risk_agent self = None
         \<or> decision_agent self = None"
  shows "\<exists>e. mandatory_chain self raw = Inl e"
proof (cases "mandatory_chain self raw")
  case (Inl e)
  then show ?thesis by blast
next
  case (Inr chain)
  then have "perception_agent self \<noteq> None \<and> fault_detection_agent self \<noteq> None
         \<and> cyber_risk_agent self \<noteq> None \<and> operational_risk_agent self \<noteq> None
         \<and> decision_agent self \<noteq> None"
    unfolding mandatory_chain_def
    by (auto simp: bind_err_Inr get_method_def split: option.splits)
  with assms show ?thesis by blast
qed

lemma process_data_failure:
  assumes "mandatory_chain self raw = Inl e"
  shows "process_data self raw =
     (Failure \<lparr>error_status = ''ERROR'', error_system_state = ''ERROR'',
               error_message = str_error e,
               error_execution_log = execution_log self
                 @ [\<lparr>level = ''INFO'', message = ''Starting data processing pipeline''\<rparr>,
                    \<lparr>level = ''ERROR'', message = ''Pipeline error: '' @ str_error e\<rparr>]\<rparr>,
      self\<lparr>execution_log := execution_log self
                 @ [\<lparr>level = ''INFO'', message = ''Starting data processing pipeline''\<rparr>,
                    \<lparr>level = ''ERROR'', message = ''Pipeline error: '' @ str_error e\<rparr>],
           system_state := ''ERROR''\<rparr>)"
  using assms by (simp add: process_data_def Let_def) (simp add: log_event_def)

lemma process_data_mapping_error:
  assumes "risk_mapping_agent self = Some mapper"
    and "mandatory_chain self raw = Inr chain"
    and "risk_mapping_step mapper (chain_detection chain) raw = (Inl e, st)"
  shows "process_data self raw =
     (Success \<lparr>status = ''SUCCESS'', result_system_state = ''COMPLETED'',
               result_detection_results = chain_detection chain,
               result_cyber_assessment = chain_cyber chain,
               result_operational_assessment = chain_operational chain,
               result_decisions = chain_decisions chain,
               result_execution_log = execution_log self
                 @ [\<lparr>level = ''INFO'', message = ''Starting data processing pipeline''\<rparr>,
                    \<lparr>level = ''WARNING'', message = ''Risk mapping error: '' @ str_error e\<rparr>,
                    \<lparr>level = ''SUCCESS'', message = ''Pipeline completed successfully''\<rparr>],
               risk_mapping = None\<rparr>,
      self\<lparr>risk_mapping_agent := Some (mapper\<lparr>mapper_state := st\<rparr>),
           execution_log := execution_log self
                 @ [\<lparr>level = ''INFO'', message = ''Starting data processing pipeline''\<rparr>,
                    \<lparr>level = ''WARNING'', message = ''Risk mapping error: '' @ str_error e\<rparr>,
                    \<lparr>level = ''SUCCESS'', message = ''Pipeline completed successfully''\<rparr>],
           system_state := ''COMPLETED''\<rparr>)"
  using assms by (simp add: process_data_def Let_def) (simp add: log_event_def)

lemma mandatory_chain_detection:
  assumes "mandatory_chain self raw = Inr chain" and "fault_detection_agent self = Some g"
  shows "\<exists>X. g X = Inr (chain_detection chain)"
  using assms unfolding mandatory_chain_def
  by (auto simp: bind_err_Inr get_method_def split: option.splits)

lemma detect_keys:
  assumes "detect fd X = Inr d"
  shows "\<exists>v. dict_getitem d ''predictions'' = Inr v"
    and "dict_getitem d ''attack_probabilities'' = Inl (KeyError ''attack_probabilities'')"
  using assms unfolding detect_def
  by (auto simp: bind_err_Inr Let_def detection_dict_reads split: option.splits)


lemma operational_assess_risk_succeeds:
  "\<exists>ops. operational_assess_risk agent (detection_dict flags probs preds conf r) c = Inr ops"
  by (simp add: operational_assess_risk_def detection_dict_reads Let_def)

lemma demo_detect:
  "detect (FaultDetectionAgent_init\<lparr>model := Some demo_classifier\<rparr>) X = Inr demo_detection"
  by (simp add: detect_def FaultDetectionAgent_init_def demo_classifier_def Let_def
        np_mean_flags_def np_mean_def row_max_def demo_detection_def)

lemma demo_cyber:
  "\<exists>c. cyber_assess_risk CyberRiskAssessmentAgent_init demo_detection (Some ts) = Inr c"
  by (simp add: cyber_assess_risk_def demo_detection_def detection_dict_reads np_max_def
        np_mean_def np_mean_flags_def np_sum_flags_def calculate_cyber_risk_score_def
        identify_attack_pattern_def mask_index_def cyber_classify_init Let_def)

lemma demo_chain: "\<exists>chain. mandatory_chain demo_coordinator demo_frame = Inr chain"
proof -
  obtain c where c: "cyber_assess_risk CyberRiskAssessmentAgent_init demo_detection
         (Some [''t0'', ''t1'']) = Inr c"
    using demo_cyber by blast
  obtain ops where ops: "operational_assess_risk OperationalRiskAssessmentAgent_init
         demo_detection c = Inr ops"
    unfolding demo_detection_def using operational_assess_risk_succeeds by blast
  obtain dec where dec: "decide DecisionMakingAgent_init c ops = Inr dec"
    using decide_init_succeeds by blast
  show ?thesis
    by (simp add: mandatory_chain_def demo_coordinator_def register_agents_def
          log_event_def get_method_def demo_perception_def demo_detect c ops dec)
qed

lemma demo_failing_chain:
  "\<exists>chain. mandatory_chain demo_coordinator_failing_mapper demo_frame = Inr chain
     \<and> chain_detection chain = demo_detection_both"
proof -
  obtain c where c: "cyber_assess_risk CyberRiskAssessmentAgent_init demo_detection_both
         (Some [''t0'', ''t1'']) = Inr c"
    by (simp add: demo_detection_both_def demo_detection_def cyber_eval_defs
          detection_dict_def cyber_classify_init)
  obtain ops where ops: "operational_assess_risk OperationalRiskAssessmentAgent_init
         demo_detection_both c = Inr ops"
    by (simp add: demo_detection_both_def demo_detection_def operational_assess_risk_def
          get_float_def get_int_def dict_getitem_def detection_dict_def Let_def)
  obtain dec where dec: "decide DecisionMakingAgent_init c ops = Inr dec"
    using decide_init_succeeds by blast
  show ?thesis
    by (simp add: mandatory_chain_def demo_coordinator_failing_mapper_def register_agents_def
          log_event_def get_method_def demo_perception_def demo_detection_both_keys_def
          c ops dec)
qed

text \<open>
  C3, as the code has it. \<open>process_data\<close> does not check registration. Called while one
  of the five mandatory collaborators is missing, it runs the chain, which raises an
  exception \<open>e\<close>, and the exception is caught: the state becomes ERROR, the entry
  \<open>Pipeline error: str(e)\<close> is logged after the start entry, and a structured error
  result with the message \<open>str(e)\<close> and the same log is returned. The registered agents
  are left as they were. The exception is the AttributeError of the first missing
  collaborator's method whenever the stages before it have returned: \<open>preprocess\<close> for
  a missing perception agent, and \<open>detect\<close>, \<open>assess_risk\<close>, \<open>assess_risk\<close>,
  \<open>decide\<close> for the later ones, so that a coordinator that lacks only the decision agent
  fails at the last call of the chain.
\<close>

theorem process_before_registration:
  assumes "perception_agent self = None \<or> fault_detection_agent self = None
         \<or> cyber_risk_agent self = None \<or> operational_risk_agent self = None
         \<or> decision_agent self = None"
  shows "\<exists>e. mandatory_chain self raw_data = Inl e
     \<and> process_data self raw_data =
       (Failure \<lparr>error_status = ''ERROR'', error_system_state = ''ERROR'',
                 error_message = str_error e,
                 error_execution_log = execution_log self
                   @ [\<lparr>level = ''INFO'', message = ''Starting data processing pipeline''\<rparr>,
                      \<lparr>level = ''ERROR'', message = ''Pipeline error: '' @ str_error e\<rparr>]\<rparr>,
        self\<lparr>execution_log := execution_log self
                   @ [\<lparr>level = ''INFO'', message = ''Starting data processing pipeline''\<rparr>,
                      \<lparr>level = ''ERROR'', message = ''Pipeline error: '' @ str_error e\<rparr>],
             system_state := ''ERROR''\<rparr>)
     \<and> (perception_agent self = None \<longrightarrow> e = none_attribute_error ''preprocess'')
     \<and> (\<forall>preprocess X ts.
           perception_agent self = Some preprocess \<and> preprocess raw_data = Inr (X, ts)
           \<and> fault_detection_agent self = None
           \<longrightarrow> e = none_attribute_error ''detect'')
     \<and> (\<forall>preprocess X ts detect_method d.
           perception_agent self = Some preprocess \<and> preprocess raw_data = Inr (X, ts)
           \<and> fault_detection_agent self = Some detect_method \<and> detect_method X = Inr d
           \<and> cyber_risk_agent self = None
           \<longrightarrow> e = none_attribute_error ''assess_risk'')
     \<and> (\<forall>preprocess X ts detect_method d cyber_method c.
           perception_agent self = Some preprocess \<and> preprocess raw_data = Inr (X, ts)
           \<and> fault_detection_agent self = Some detect_method \<and> detect_method X = Inr d
           \<and> cyber_risk_agent self = Some cyber_method \<and> cyber_method d (Some ts) = Inr c
           \<and> operational_risk_agent self = None
           \<longrightarrow> e = none_attribute_error ''assess_risk'')
     \<and> (\<forall>preprocess X ts detect_method d cyber_method c operational_method ops.
           perception_agent self = Some preprocess \<and> preprocess raw_data = Inr (X, ts)
           \<and> fault_detection_agent self = Some detect_method \<and> detect_method X = Inr d
           \<and> cyber_risk_agent self = Some cyber_method \<and> cyber_method d (Some ts) = Inr c
           \<and> operational_risk_agent self = Some operational_method
           \<and> operational_method d c = Inr ops
           \<and> decision_agent self = None
           \<longrightarrow> e = none_attribute_error ''decide'')"
proof -
  obtain e where e: "mandatory_chain self raw_data = Inl e"
    using mandatory_chain_unregistered[OF assms] by blast
  have s1: "perception_agent self = None \<longrightarrow> e = none_attribute_error ''preprocess''"
    using e by (auto simp: mandatory_chain_def get_method_def)
  have s2: "\<forall>preprocess X ts.
           perception_agent self = Some preprocess \<and> preprocess raw_data = Inr (X, ts)
           \<and> fault_detection_agent self = None
           \<longrightarrow> e = none_attribute_error ''detect''"
    using e by (auto simp: mandatory_chain_def get_method_def)
  have s3: "\<forall>preprocess X ts detect_method d.
           perception_agent self = Some preprocess \<and> preprocess raw_data = Inr (X, ts)
           \<and> fault_detection_agent self = Some detect_method \<and> detect_method X = Inr d
           \<and> cyber_risk_agent self = None
           \<longrightarrow> e = none_attribute_error ''assess_risk''"
    using e by (auto simp: mandatory_chain_def get_method_def)
  have s4: "\<forall>preprocess X ts detect_method d cyber_method c.
           perception_agent self = Some preprocess \<and> preprocess raw_data = Inr (X, ts)
           \<and> fault_detection_agent self = Some detect_method \<and> detect_method X = Inr d
           \<and> cyber_risk_agent self = Some cyber_method \<and> cyber_method d (Some ts) = Inr c
           \<and> operational_risk_agent self = None
           \<longrightarrow> e = none_attribute_error ''assess_risk''"
    using e by (auto simp: mandatory_chain_def get_method_def)
  have s5: "\<forall>preprocess X ts detect_method d cyber_method c operational_method ops.
           perception_agent self = Some preprocess \<and> preprocess raw_data = Inr (X, ts)
           \<and> fault_detection_agent self = Some detect_method \<and> detect_method X = Inr d
           \<and> cyber_risk_agent self = Some cyber_method \<and> cyber_method d (Some ts) = Inr c
           \<and> operational_risk_agent self = Some operational_method
           \<and> operational_method d c = Inr ops
           \<and> decision_agent self = None
           \<longrightarrow> e = none_attribute_error ''decide''"
    using e by (auto simp: mandatory_chain_def get_method_def)
  show ?thesis
    by (rule exI[of _ e]) (intro conjI e process_data_failure[OF e] s1 s2 s3 s4 s5)
qed

theorem process_before_registration_witness:
  "decision_agent demo_coordinator_without_decision = None
   \<and> perception_agent demo_coordinator_without_decision \<noteq> None
   \<and> fault_detection_agent demo_coordinator_without_decision \<noteq> None
   \<and> cyber_risk_agent demo_coordinator_without_decision \<noteq> None
   \<and> operational_risk_agent demo_coordinator_without_decision \<noteq> None
   \<and> mandatory_chain demo_coordinator_without_decision demo_frame
       = Inl (none_attribute_error ''decide'')
   \<and> process_data demo_coordinator_without_decision demo_frame =
       (Failure \<lparr>error_status = ''ERROR'', error_system_state = ''ERROR'',
                 error_message = str_error (none_attribute_error ''decide''),
                 error_execution_log =
                   [\<lparr>level = ''INFO'', message = ''All agents registered''\<rparr>,
                    \<lparr>level = ''INFO'', message = ''Starting data processing pipeline''\<rparr>,
                    \<lparr>level = ''ERROR'',
                     message = ''Pipeline error: ''
                               @ str_error (none_attribute_error ''decide'')\<rparr>]\<rparr>,
        demo_coordinator_without_decision\<lparr>execution_log :=
                   [\<lparr>level = ''INFO'', message = ''All agents registered''\<rparr>,
                    \<lparr>level = ''INFO'', message = ''Starting data processing pipeline''\<rparr>,
                    \<lparr>level = ''ERROR'',
                     message = ''Pipeline error: ''
                               @ str_error (none_attribute_error ''decide'')\<rparr>],
             system_state := ''ERROR''\<rparr>)"
proof -
  let ?self = demo_coordinator_without_decision
  obtain c where c: "cyber_assess_risk CyberRiskAssessmentAgent_init demo_detection
         (Some [''t0'', ''t1'']) = Inr c"
    using demo_cyber by blast
  obtain ops where ops: "operational_assess_risk OperationalRiskAssessmentAgent_init
         demo_detection c = Inr ops"
    unfolding demo_detection_def using operational_assess_risk_succeeds by blast
  have agents:
    "perception_agent ?self = Some demo_perception"
    "fault_detection_agent ?self
       = Some (detect (FaultDetectionAgent_init\<lparr>model := Some demo_classifier\<rparr>))"
    "cyber_risk_agent ?self = Some (cyber_assess_risk CyberRiskAssessmentAgent_init)"
    "operational_risk_agent ?self
       = Some (operational_assess_risk OperationalRiskAssessmentAgent_init)"
    "decision_agent ?self = None"
    by (simp_all add: demo_coordinator_without_decision_def register_agents_def log_event_def)
  have log: "execution_log ?self = [\<lparr>level = ''INFO'', message = ''All agents registered''\<rparr>]"
    by (simp add: demo_coordinator_without_decision_def register_agents_def log_event_def
          CoordinationAgent_init_def)
  have pre: "demo_perception demo_frame = Inr ([[0.5], [-0.5]], [''t0'', ''t1''])"
    by (simp add: demo_perception_def)
  have missing: "perception_agent ?self = None \<or> fault_detection_agent ?self = None
         \<or> cyber_risk_agent ?self = None \<or> operational_risk_agent ?self = None
         \<or> decision_agent ?self = None"
    using agents(5) by simp
  from process_before_registration[OF missing, of demo_frame]
  obtain e where chain: "mandatory_chain ?self demo_frame = Inl e"
    and res: "process_data ?self demo_frame =
       (Failure \<lparr>error_status = ''ERROR'', error_system_state = ''ERROR'',
                 error_message = str_error e,
                 error_execution_log = execution_log ?self
                   @ [\<lparr>level = ''INFO'', message = ''Starting data processing pipeline''\<rparr>,
                      \<lparr>level = ''ERROR'', message = ''Pipeline error: '' @ str_error e\<rparr>]\<rparr>,
        ?self\<lparr>execution_log := execution_log ?self
                   @ [\<lparr>level = ''INFO'', message = ''Starting data processing pipeline''\<rparr>,
                      \<lparr>level = ''ERROR'', message = ''Pipeline error: '' @ str_error e\<rparr>],
             system_state := ''ERROR''\<rparr>)"
    and last: "\<forall>preprocess X ts detect_method d cyber_method c operational_method ops.
           perception_agent ?self = Some preprocess \<and> preprocess demo_frame = Inr (X, ts)
           \<and> fault_detection_agent ?self = Some detect_method \<and> detect_method X = Inr d
           \<and> cyber_risk_agent ?self = Some cyber_method \<and> cyber_method d (Some ts) = Inr c
           \<and> operational_risk_agent ?self = Some operational_method
           \<and> operational_method d c = Inr ops
           \<and> decision_agent ?self = None
           \<longrightarrow> e = none_attribute_error ''decide''"
    by (elim exE conjE) (rule that; assumption)
  have e: "e = none_attribute_error ''decide''"
    using last agents pre demo_detect c ops by blast
  show ?thesis
    using chain res unfolding e log by (simp add: agents)
qed

theorem process_before_registration_counterexample:
  "system_state (register_agents (CoordinationAgent_init :: unit CoordinationAgent)
                   None None None None None None) = ''READY''
   \<and> system_state (snd (process_data
         (register_agents (CoordinationAgent_init :: unit CoordinationAgent)
            None None None None None None) demo_frame)) = ''ERROR''
   \<and> length (execution_log (snd (process_data
         (register_agents (CoordinationAgent_init :: unit CoordinationAgent)
            None None None None None None) demo_frame)))
       = length (execution_log (register_agents (CoordinationAgent_init :: unit CoordinationAgent)
            None None None None None None)) + 2"
proof -
  let ?c = "register_agents (CoordinationAgent_init :: unit CoordinationAgent)
            None None None None None None"
  have "mandatory_chain ?c demo_frame = Inl (none_attribute_error ''preprocess'')"
    by (simp add: mandatory_chain_def register_agents_def log_event_def get_method_def)
  from process_data_failure[OF this] show ?thesis
    by (simp add: register_agents_def log_event_def)
qed

text \<open>
  C7. When the mandatory chain succeeds on a batch and the step of the registered risk
  mapper raises an exception, \<open>process_data\<close> returns a success result without a
  risk-mapping entry: the exception is logged as a warning between the start and the
  success entry, the state is COMPLETED, and the decisions are those of the chain.
\<close>

theorem risk_mapping_failure_swallowed:
  assumes "risk_mapping_agent self = Some mapper"
    and "mandatory_chain self raw = Inr chain"
    and "risk_mapping_step mapper (chain_detection chain) raw = (Inl e, st)"
  shows "\<exists>res self'. process_data self raw = (Success res, self')
     \<and> status res = ''SUCCESS''
     \<and> risk_mapping res = None
     \<and> result_decisions res = chain_decisions chain
     \<and> system_state self' = ''COMPLETED''
     \<and> result_execution_log res = execution_log self'
     \<and> execution_log self' = execution_log self
          @ [\<lparr>level = ''INFO'', message = ''Starting data processing pipeline''\<rparr>,
             \<lparr>level = ''WARNING'', message = ''Risk mapping error: '' @ str_error e\<rparr>,
             \<lparr>level = ''SUCCESS'', message = ''Pipeline completed successfully''\<rparr>]"
  by (simp add: process_data_mapping_error[OF assms])

theorem risk_mapping_failure_swallowed_witness:
  "\<exists>res self'. process_data demo_coordinator_failing_mapper demo_frame = (Success res, self')
     \<and> status res = ''SUCCESS''
     \<and> risk_mapping res = None
     \<and> system_state self' = ''COMPLETED''
     \<and> execution_log self' =
          [\<lparr>level = ''INFO'', message = ''All agents registered''\<rparr>,
           \<lparr>level = ''INFO'', message = ''Starting data processing pipeline''\<rparr>,
           \<lparr>level = ''WARNING'', message = ''Risk mapping error: mapping failed''\<rparr>,
           \<lparr>level = ''SUCCESS'', message = ''Pipeline completed successfully''\<rparr>]"
proof -
  obtain chain where chain:
    "mandatory_chain demo_coordinator_failing_mapper demo_frame = Inr chain"
    "chain_detection chain = demo_detection_both"
    using demo_failing_chain by blast
  have m: "risk_mapping_agent demo_coordinator_failing_mapper = Some failing_mapper"
    by (simp add: demo_coordinator_failing_mapper_def register_agents_def log_event_def)
  have step: "risk_mapping_step failing_mapper (chain_detection chain) demo_frame
                = (Inl (ValueError ''mapping failed''), ())"
    by (simp add: risk_mapping_step_def chain(2) dict_getitem_def detection_dict_def
          demo_detection_both_def demo_detection_def failing_mapper_def)
  have log: "execution_log demo_coordinator_failing_mapper =
               [\<lparr>level = ''INFO'', message = ''All agents registered''\<rparr>]"
    by (simp add: demo_coordinator_failing_mapper_def register_agents_def log_event_def
          CoordinationAgent_init_def)
  from risk_mapping_failure_swallowed[OF m chain(1) step]
  obtain res self' where r:
    "process_data demo_coordinator_failing_mapper demo_frame = (Success res, self')"
    "status res = ''SUCCESS''" "risk_mapping res = None" "system_state self' = ''COMPLETED''"
    "execution_log self' = execution_log demo_coordinator_failing_mapper
          @ [\<lparr>level = ''INFO'', message = ''Starting data processing pipeline''\<rparr>,
             \<lparr>level = ''WARNING'',
              message = ''Risk mapping error: '' @ str_error (ValueError ''mapping failed'')\<rparr>,
             \<lparr>level = ''SUCCESS'', message = ''Pipeline completed successfully''\<rparr>]"
    by blast
  show ?thesis
    apply (rule exI[of _ res])
    apply (rule exI[of _ self'])
    using r by (simp add: log)
qed

text \<open>
  C10. When the registered fault detector is \<open>FaultDetectionAgent.detect\<close>, a risk mapper
  is registered and the mandatory chain succeeds, the detection results have no key
  \<open>attack_probabilities\<close>; the risk-mapping step raises KeyError for it before the mapper
  is called (the mapper keeps its state), the error is logged as a warning, and the
  success result has no risk-mapping entry.
\<close>

theorem risk_mapping_key_never_present:
  assumes "fault_detection_agent self = Some (detect fd)"
    and "risk_mapping_agent self = Some mapper"
    and "mandatory_chain self raw = Inr chain"
  shows "dict_getitem (chain_detection chain) ''attack_probabilities''
           = Inl (KeyError ''attack_probabilities'')
     \<and> risk_mapping_step mapper (chain_detection chain) raw
           = (Inl (KeyError ''attack_probabilities''), mapper_state mapper)
     \<and> (\<exists>res self'. process_data self raw = (Success res, self')
          \<and> status res = ''SUCCESS''
          \<and> risk_mapping res = None
          \<and> risk_mapping_agent self' = Some mapper
          \<and> execution_log self' = execution_log self
               @ [\<lparr>level = ''INFO'', message = ''Starting data processing pipeline''\<rparr>,
                  \<lparr>level = ''WARNING'',
                   message = ''Risk mapping error: '' @ [CHR 0x27] @ ''attack_probabilities''
                             @ [CHR 0x27]\<rparr>,
                  \<lparr>level = ''SUCCESS'', message = ''Pipeline completed successfully''\<rparr>])"
proof -
  obtain X where X: "detect fd X = Inr (chain_detection chain)"
    using mandatory_chain_detection[OF assms(3) assms(1)] by blast
  obtain v where v: "dict_getitem (chain_detection chain) ''predictions'' = Inr v"
    using detect_keys(1)[OF X] by blast
  note k = detect_keys(2)[OF X]
  have step: "risk_mapping_step mapper (chain_detection chain) raw
           = (Inl (KeyError ''attack_probabilities''), mapper_state mapper)"
    by (simp add: risk_mapping_step_def v k)
  show ?thesis
    using k step by (simp add: process_data_mapping_error[OF assms(2,3) step])
qed

theorem risk_mapping_key_never_present_witness:
  "\<exists>res self'. process_data demo_coordinator demo_frame = (Success res, self')
     \<and> risk_mapping res = None
     \<and> risk_mapping_agent self' = Some (risk_mapping_agent_of RiskMappingAgent_init)
     \<and> execution_log self' =
          [\<lparr>level = ''INFO'', message = ''All agents registered''\<rparr>,
           \<lparr>level = ''INFO'', message = ''Starting data processing pipeline''\<rparr>,
           \<lparr>level = ''WARNING'',
            message = ''Risk mapping error: '' @ [CHR 0x27] @ ''attack_probabilities''
                      @ [CHR 0x27]\<rparr>,
           \<lparr>level = ''SUCCESS'', message = ''Pipeline completed successfully''\<rparr>]"
proof -
  obtain chain where chain: "mandatory_chain demo_coordinator demo_frame = Inr chain"
    using demo_chain by blast
  have f: "fault_detection_agent demo_coordinator =
             Some (detect (FaultDetectionAgent_init\<lparr>model := Some demo_classifier\<rparr>))"
    by (simp add: demo_coordinator_def register_agents_def log_event_def)
  have m: "risk_mapping_agent demo_coordinator =
             Some (risk_mapping_agent_of RiskMappingAgent_init)"
    by (simp add: demo_coordinator_def register_agents_def log_event_def)
  have log: "execution_log demo_coordinator =
               [\<lparr>level = ''INFO'', message = ''All agents registered''\<rparr>]"
    by (simp add: demo_coordinator_def register_agents_def log_event_def
          CoordinationAgent_init_def)
  from risk_mapping_key_never_present[OF f m chain] show ?thesis
    unfolding log append_Cons append_Nil by blast
qed


section \<open>Risk mapping\<close>

lemma outlier_mean: "series_mean outlier_column = 1 / 9"
  by (simp add: series_mean_def outlier_column_def)

lemma outlier_std: "series_std outlier_column = 1 / 3"
proof -
  have "sum_list (map (\<lambda>x. (x - 1 / 9)\<^sup>2) outlier_column) / real (length outlier_column - 1)
          = (1 / 3)\<^sup>2"
    by (simp add: outlier_column_def power2_eq_square)
  then show ?thesis
    by (simp add: series_std_def outlier_mean real_sqrt_divide)
qed

lemma np_where_empty: "True \<notin> set flags \<Longrightarrow> np_where flags = []"
  by (auto simp: np_where_def filter_empty_conv) (metis nth_mem)

text \<open>
  C8. When the predictions are missing or empty or no prediction equals 1,
  \<open>map_anomalies_to_risks\<close> returns the empty mapping and leaves the agent's counters
  as they were: all 8 categories at 0, majority category "None" with severity "Low", no
  sensor contributions and zero anomalies analysed.
\<close>

theorem empty_mapping_without_positive_labels:
  assumes "True \<notin> set (equals_one (case predictions ad of None \<Rightarrow> IntArray [] | Some v \<Rightarrow> v))"
  shows "map_anomalies_to_risks self ad = (empty_risk_mapping, self)
     \<and> distribution empty_risk_mapping = map (\<lambda>risk. (risk, 0)) RISK_CATEGORIES
     \<and> length (distribution empty_risk_mapping) = 8
     \<and> category (majority_risk empty_risk_mapping) = ''None''
     \<and> severity (majority_risk empty_risk_mapping) = ''Low''
     \<and> sensor_contributions empty_risk_mapping = []
     \<and> total_anomalies_analyzed empty_risk_mapping = 0"
proof -
  have "map_anomalies_to_risks self ad = (empty_risk_mapping, self)"
    using np_where_empty[OF assms]
    by (simp add: map_anomalies_to_risks_def Let_def split: option.splits sum.splits)
  then show ?thesis
    by (simp add: empty_risk_mapping_def RISK_CATEGORIES_def)
qed

theorem empty_mapping_without_positive_labels_witness:
  "True \<notin> set (equals_one (case predictions quiet_data of None \<Rightarrow> IntArray [] | Some v \<Rightarrow> v))
   \<and> map_anomalies_to_risks RiskMappingAgent_init quiet_data
       = (empty_risk_mapping, RiskMappingAgent_init)
   \<and> category (majority_risk empty_risk_mapping) = ''None''"
proof -
  have h: "True \<notin> set (equals_one
             (case predictions quiet_data of None \<Rightarrow> IntArray [] | Some v \<Rightarrow> v))"
    by (simp add: quiet_data_def)
  from empty_mapping_without_positive_labels[OF h, of RiskMappingAgent_init] h
  show ?thesis by simp
qed


lemma defaultdict_update_key_set:
  "fst ` set (defaultdict_update k d f xs) = insert k (fst ` set xs)"
proof (induction xs)
  case Nil
  show ?case by simp
next
  case (Cons kv xs)
  obtain k' v where kv: "kv = (k', v)" by (cases kv) auto
  show ?case
  proof (cases "k = k'")
    case True
    then show ?thesis by (simp add: kv)
  next
    case False
    then show ?thesis using Cons by (simp add: kv insert_commute)
  qed
qed

lemma defaultdict_update_distinct:
  "distinct (map fst xs) \<Longrightarrow> distinct (map fst (defaultdict_update k d f xs))"
proof (induction xs)
  case Nil
  then show ?case by simp
next
  case (Cons kv xs)
  obtain k' v where kv: "kv = (k', v)" by (cases kv) auto
  show ?case
  proof (cases "k = k'")
    case True
    then show ?thesis using Cons.prems by (simp add: kv)
  next
    case False
    have "k' \<notin> fst ` set (defaultdict_update k d f xs)"
      using Cons.prems False by (simp add: kv defaultdict_update_key_set)
    then show ?thesis using Cons False by (simp add: kv)
  qed
qed

lemma defaultdict_update_keys:
  assumes "distinct (map fst xs)" and "set (map fst xs) \<subseteq> A" and "k \<in> A"
  shows "distinct (map fst (defaultdict_update k d f xs))
       \<and> set (map fst (defaultdict_update k d f xs)) \<subseteq> A"
  using assms defaultdict_update_distinct[OF assms(1), of k d f]
  by (simp add: defaultdict_update_key_set)

lemma fold_invariant:
  assumes "\<And>x a. P a \<Longrightarrow> P (f x a)" and "P acc"
  shows "P (fold f xs acc)"
  using assms(2) by (induction xs arbitrary: acc) (auto intro: assms(1))

lemma record_risk_keys:
  assumes "distinct (map fst (fst acc))" and "set (map fst (fst acc)) \<subseteq> A" and "risk \<in> A"
  shows "distinct (map fst (fst (record_risk sensor risk acc)))
       \<and> set (map fst (fst (record_risk sensor risk acc))) \<subseteq> A"
proof -
  obtain rc sc self where acc: "acc = (rc, sc, self)" by (cases acc) auto
  show ?thesis
    using assms defaultdict_update_keys[of rc A risk "[]" "\<lambda>l. l @ [sensor]"]
    by (simp add: acc record_risk_def)
qed

lemma fold_record_risk_keys:
  assumes "set rs \<subseteq> A"
    and "distinct (map fst (fst acc))" and "set (map fst (fst acc)) \<subseteq> A"
  shows "distinct (map fst (fst (fold (record_risk sensor) rs acc)))
       \<and> set (map fst (fst (fold (record_risk sensor) rs acc))) \<subseteq> A"
  using assms
proof (induction rs arbitrary: acc)
  case Nil
  then show ?case by simp
next
  case (Cons r rs)
  have "distinct (map fst (fst (record_risk sensor r acc)))
       \<and> set (map fst (fst (record_risk sensor r acc))) \<subseteq> A"
    using Cons.prems by (intro record_risk_keys) auto
  then show ?case using Cons.IH[of "record_risk sensor r acc"] Cons.prems by simp
qed

lemma sensor_risks_are_categories:
  "set (dict_get SENSOR_RISK_MAP sensor []) \<subseteq> set RISK_CATEGORIES"
proof -
  have all: "list_all (\<lambda>kv. list_all (\<lambda>r. r \<in> set RISK_CATEGORIES) (snd kv)) SENSOR_RISK_MAP"
    by code_simp
  show ?thesis
  proof (cases "map_of SENSOR_RISK_MAP sensor")
    case None
    then show ?thesis by (simp add: dict_get_def)
  next
    case (Some rs)
    then have "(sensor, rs) \<in> set SENSOR_RISK_MAP" by (rule map_of_SomeD)
    with all have "list_all (\<lambda>r. r \<in> set RISK_CATEGORIES) rs"
      by (auto simp: list_all_iff)
    then show ?thesis using Some by (auto simp: dict_get_def list_all_iff)
  qed
qed

lemma record_anomaly_keys:
  assumes "distinct (map fst (fst acc))" and "set (map fst (fst acc)) \<subseteq> set RISK_CATEGORIES"
  shows "distinct (map fst (fst (record_anomaly sensor acc)))
       \<and> set (map fst (fst (record_anomaly sensor acc))) \<subseteq> set RISK_CATEGORIES"
proof -
  obtain rc sc self where acc: "acc = (rc, sc, self)" by (cases acc) auto
  show ?thesis
    unfolding acc record_anomaly_def prod.case
    by (rule fold_record_risk_keys[OF sensor_risks_are_categories]) (use assms acc in simp_all)
qed

lemma analyze_sample_keys:
  assumes "distinct (map fst (fst acc))" and "set (map fst (fst acc)) \<subseteq> set RISK_CATEGORIES"
  shows "distinct (map fst (fst (analyze_sample df idx acc)))
       \<and> set (map fst (fst (analyze_sample df idx acc))) \<subseteq> set RISK_CATEGORIES"
  unfolding analyze_sample_def
proof (rule fold_invariant[where P = "\<lambda>a. distinct (map fst (fst a))
         \<and> set (map fst (fst a)) \<subseteq> set RISK_CATEGORIES"])
  show "distinct (map fst (fst acc)) \<and> set (map fst (fst acc)) \<subseteq> set RISK_CATEGORIES"
    using assms by simp
next
  fix s and a :: contributions
  assume a: "distinct (map fst (fst a)) \<and> set (map fst (fst a)) \<subseteq> set RISK_CATEGORIES"
  then have "distinct (map fst (fst (record_anomaly s a)))
       \<and> set (map fst (fst (record_anomaly s a))) \<subseteq> set RISK_CATEGORIES"
    by (intro record_anomaly_keys) simp_all
  with a show "distinct (map fst (fst (case map_of (columns df) s of
               None \<Rightarrow> a
             | Some col \<Rightarrow>
                 if is_sensor_anomalous s (col ! idx) df
                 then record_anomaly s a else a)))
       \<and> set (map fst (fst (case map_of (columns df) s of
               None \<Rightarrow> a
             | Some col \<Rightarrow>
                 if is_sensor_anomalous s (col ! idx) df
                 then record_anomaly s a else a))) \<subseteq> set RISK_CATEGORIES"
    by (simp split: option.splits)
qed

lemma analyze_samples_keys:
  assumes "analyze_samples df idxs acc = (err, acc')"
    and "distinct (map fst (fst acc))" and "set (map fst (fst acc)) \<subseteq> set RISK_CATEGORIES"
  shows "distinct (map fst (fst acc')) \<and> set (map fst (fst acc')) \<subseteq> set RISK_CATEGORIES"
  using assms
proof (induction idxs arbitrary: acc)
  case Nil
  then show ?case by simp
next
  case (Cons idx idxs)
  show ?case
  proof (cases "idx \<ge> nrows df")
    case True
    with Cons.prems show ?thesis by simp
  next
    case False
    with Cons.prems have "analyze_samples df idxs (analyze_sample df idx acc) = (err, acc')"
      by simp
    then show ?thesis
      using analyze_sample_keys[OF Cons.prems(2,3), of df idx] by (intro Cons.IH) auto
  qed
qed

lemma sum_list_single_key:
  assumes "k \<in> set cats" and "distinct cats" and "g k = 0"
  shows "(\<Sum>c\<leftarrow>cats. if c = k then a else g c) = a + (\<Sum>c\<leftarrow>cats. g c :: nat)"
  using assms
proof (induction cats)
  case Nil
  then show ?case by simp
next
  case (Cons c cats)
  show ?case
  proof (cases "c = k")
    case True
    then have "k \<notin> set cats" using Cons.prems by auto
    then have "(\<Sum>c\<leftarrow>cats. if c = k then a else g c) = (\<Sum>c\<leftarrow>cats. g c)"
      by (intro arg_cong[where f=sum_list] map_cong) auto
    then show ?thesis using True Cons.prems by simp
  next
    case False
    then show ?thesis using Cons by auto
  qed
qed

lemma dict_get_Cons:
  "dict_get ((k, v) # rest) c d = (if c = k then v else dict_get rest c d)"
  by (simp add: dict_get_def)

lemma dict_get_missing: "k \<notin> set (map fst rc) \<Longrightarrow> dict_get rc k d = d"
  by (simp add: dict_get_def map_of_eq_None_iff[THEN iffD2])

lemma sum_counts_by_key:
  assumes "distinct (map fst rc)" and "set (map fst rc) \<subseteq> set cats" and "distinct cats"
  shows "(\<Sum>c\<leftarrow>cats. length (dict_get rc c [])) = (\<Sum>kv\<leftarrow>rc. length (snd kv))"
  using assms(1,2)
proof (induction rc)
  case Nil
  then show ?case by (simp add: dict_get_def)
next
  case (Cons kv rc)
  obtain k l where kv: "kv = (k, l)" by (cases kv) auto
  have k: "k \<in> set cats" "k \<notin> set (map fst rc)" using Cons.prems kv by auto
  have "(\<Sum>c\<leftarrow>cats. length (dict_get (kv # rc) c []))
          = (\<Sum>c\<leftarrow>cats. if c = k then length l else length (dict_get rc c []))"
    by (intro arg_cong[where f=sum_list] map_cong) (auto simp: kv dict_get_Cons)
  also have "\<dots> = length l + (\<Sum>c\<leftarrow>cats. length (dict_get rc c []))"
    by (rule sum_list_single_key[OF k(1) assms(3)]) (simp add: dict_get_missing[OF k(2)])
  also have "\<dots> = length l + (\<Sum>kv\<leftarrow>rc. length (snd kv))"
    using Cons by simp
  finally show ?case by (simp add: kv)
qed

lemma round_half_even_error: "\<bar>real_of_int (round_half_even y) - y\<bar> \<le> 1 / 2"
proof -
  have "real_of_int \<lfloor>y\<rfloor> \<le> y" "y < real_of_int \<lfloor>y\<rfloor> + 1" by linarith+
  then show ?thesis
    by (auto simp: round_half_even_def Let_def)
qed

lemma py_round_3_error: "\<bar>py_round x 3 - x\<bar> \<le> 1 / 2000"
proof -
  have "\<bar>py_round x 3 - x\<bar> = \<bar>real_of_int (round_half_even (x * 1000)) - x * 1000\<bar> / 1000"
    by (simp add: py_round_def field_simps)
  also have "\<dots> \<le> (1 / 2) / 1000"
    by (intro divide_right_mono round_half_even_error) simp
  finally show ?thesis by simp
qed

lemma sum_list_error:
  fixes f g :: "'a \<Rightarrow> real"
  assumes "\<And>x. x \<in> set xs \<Longrightarrow> \<bar>f x - g x\<bar> \<le> e"
  shows "\<bar>(\<Sum>x\<leftarrow>xs. f x) - (\<Sum>x\<leftarrow>xs. g x)\<bar> \<le> real (length xs) * e"
  using assms
proof (induction xs)
  case Nil
  then show ?case by simp
next
  case (Cons x xs)
  have "\<bar>f x - g x\<bar> \<le> e" using Cons.prems by simp
  moreover have "\<bar>(\<Sum>x\<leftarrow>xs. f x) - (\<Sum>x\<leftarrow>xs. g x)\<bar> \<le> real (length xs) * e"
    using Cons by simp
  ultimately show ?case by (auto simp: algebra_simps)
qed

lemma distinct_RISK_CATEGORIES: "distinct RISK_CATEGORIES" "length RISK_CATEGORIES = 8"
  by (simp_all add: RISK_CATEGORIES_def)

lemma int_sum_list: "int (\<Sum>x\<leftarrow>xs. f x) = (\<Sum>x\<leftarrow>xs. int (f x))"
  by (induction xs) auto

lemma risk_details_total:
  "(\<Sum>kd\<leftarrow>get_risk_details rc. total (snd kd))
     = int (\<Sum>c\<leftarrow>RISK_CATEGORIES. length (dict_get rc c []))"
  by (simp add: get_risk_details_def Let_def comp_def int_sum_list)


lemma sum_list_real_divide:
  "(\<Sum>x\<leftarrow>xs. real (f x) / n) = real (\<Sum>x\<leftarrow>xs. f x) / n"
  by (induction xs) (auto simp: add_divide_distrib)

lemma map_anomalies_cases:
  assumes "map_anomalies_to_risks self ad = (r, self')"
  shows "r = empty_risk_mapping
       \<or> (\<exists>rc. distinct (map fst rc) \<and> set (map fst rc) \<subseteq> set RISK_CATEGORIES
              \<and> distribution r = calculate_risk_distribution rc
              \<and> risk_details r = get_risk_details rc)"
proof (cases "r = empty_risk_mapping")
  case True
  then show ?thesis by simp
next
  case False
  with assms obtain df idxs rc sc where
    run: "analyze_samples df idxs ([], [], self) = (None, (rc, sc, self'))"
    and r: "distribution r = calculate_risk_distribution rc"
           "risk_details r = get_risk_details rc"
    unfolding map_anomalies_to_risks_def Let_def
    by (auto split: option.splits sum.splits if_splits prod.splits)
  from analyze_samples_keys[OF run]
  have "distinct (map fst rc) \<and> set (map fst rc) \<subseteq> set RISK_CATEGORIES" by simp
  with r show ?thesis by blast
qed

lemma distribution_of_contributions:
  assumes "distinct (map fst rc)" and "set (map fst rc) \<subseteq> set RISK_CATEGORIES"
  defines "T \<equiv> (\<Sum>kd\<leftarrow>get_risk_details rc. total (snd kd))"
  shows "map fst (calculate_risk_distribution rc) = RISK_CATEGORIES"
    and "T = 0 \<Longrightarrow> map snd (calculate_risk_distribution rc) = replicate 8 0"
    and "T \<noteq> 0 \<Longrightarrow> calculate_risk_distribution rc =
           map (\<lambda>kd. (fst kd, py_round (real_of_int (total (snd kd)) / real_of_int T) 3))
             (get_risk_details rc)"
    and "T \<noteq> 0 \<Longrightarrow> \<bar>(\<Sum>kv\<leftarrow>calculate_risk_distribution rc. snd kv) - 1\<bar> \<le> 0.004"
proof -
  define n where "n = (\<Sum>kv\<leftarrow>rc. length (snd kv))"
  have T: "T = int n"
    unfolding T_def n_def risk_details_total
    using sum_counts_by_key[OF assms(1,2) distinct_RISK_CATEGORIES(1)] by simp
  show "map fst (calculate_risk_distribution rc) = RISK_CATEGORIES"
    by (simp add: calculate_risk_distribution_def Let_def comp_def)
  show "map snd (calculate_risk_distribution rc) = replicate 8 0" if "T = 0"
    using that T
    by (simp add: calculate_risk_distribution_def n_def[symmetric] comp_def
          map_replicate_const distinct_RISK_CATEGORIES)
  show "calculate_risk_distribution rc =
           map (\<lambda>kd. (fst kd, py_round (real_of_int (total (snd kd)) / real_of_int T) 3))
             (get_risk_details rc)" if "T \<noteq> 0"
    using that T
    by (simp add: calculate_risk_distribution_def n_def[symmetric] get_risk_details_def
          Let_def comp_def)
  show "\<bar>(\<Sum>kv\<leftarrow>calculate_risk_distribution rc. snd kv) - 1\<bar> \<le> 0.004" if "T \<noteq> 0"
  proof -
    have n0: "n \<noteq> 0" using that T by simp
    have dist: "(\<Sum>kv\<leftarrow>calculate_risk_distribution rc. snd kv)
        = (\<Sum>c\<leftarrow>RISK_CATEGORIES. py_round (real (length (dict_get rc c [])) / real n) 3)"
      using n0 by (simp add: calculate_risk_distribution_def n_def[symmetric] Let_def comp_def)
    have exact: "(\<Sum>c\<leftarrow>RISK_CATEGORIES. real (length (dict_get rc c [])) / real n) = 1"
      using n0 sum_counts_by_key[OF assms(1,2) distinct_RISK_CATEGORIES(1)]
      by (simp add: sum_list_real_divide n_def)
    have "\<bar>(\<Sum>c\<leftarrow>RISK_CATEGORIES. py_round (real (length (dict_get rc c [])) / real n) 3)
          - (\<Sum>c\<leftarrow>RISK_CATEGORIES. real (length (dict_get rc c [])) / real n)\<bar>
          \<le> real (length RISK_CATEGORIES) * (1 / 2000)"
      by (rule sum_list_error) (rule py_round_3_error)
    then show ?thesis
      by (simp add: dist exact distinct_RISK_CATEGORIES)
  qed
qed

lemma py_round_3_near: "\<bar>py_round x 3 - x\<bar> * 1000 \<le> 1"
  using py_round_3_error[of x] by simp

lemma shares_of_contributions:
  assumes "distinct (map fst rc)" and "set (map fst rc) \<subseteq> set RISK_CATEGORIES"
    and "(\<Sum>kd\<leftarrow>get_risk_details rc. total (snd kd)) \<noteq> 0"
  shows "list_all2
           (\<lambda>kv kd. fst kv = fst kd
              \<and> \<bar>snd kv - real_of_int (total (snd kd))
                    / real_of_int (\<Sum>kd\<leftarrow>get_risk_details rc. total (snd kd))\<bar> \<le> 1 / 1000)
           (calculate_risk_distribution rc) (get_risk_details rc)"
  by (subst distribution_of_contributions(3)[OF assms])
     (simp add: list_all2_map1 list_all2_same py_round_3_near)

text \<open>
  C2, as the code has it. The total number of contributions of a call is the sum of the
  per-category totals of its result. The distribution lists the 8 categories in their
  fixed order, as the risk details do. When the total is zero every value is 0.
  Otherwise every value is a three-decimal rounding of the category's share of the
  total: it lies within 0.001 of the share, and the values sum to 1.0 within 0.004 (not
  within floating-point epsilon).
\<close>

theorem risk_distribution_rounded_shares:
  assumes "map_anomalies_to_risks self ad = (r, self')"
  shows "map fst (distribution r) = RISK_CATEGORIES
     \<and> (if (\<Sum>kd\<leftarrow>risk_details r. total (snd kd)) = 0
        then map snd (distribution r) = replicate 8 0
        else list_all2
               (\<lambda>kv kd. fst kv = fst kd
                  \<and> \<bar>snd kv - real_of_int (total (snd kd))
                        / real_of_int (\<Sum>kd\<leftarrow>risk_details r. total (snd kd))\<bar> \<le> 1 / 1000)
               (distribution r) (risk_details r)
             \<and> \<bar>(\<Sum>kv\<leftarrow>distribution r. snd kv) - 1\<bar> \<le> 0.004)"
proof -
  from map_anomalies_cases[OF assms]
  consider (empty) "r = empty_risk_mapping"
    | (mapped) rc where "distinct (map fst rc)" "set (map fst rc) \<subseteq> set RISK_CATEGORIES"
        "distribution r = calculate_risk_distribution rc"
        "risk_details r = get_risk_details rc"
    by blast
  then show ?thesis
  proof cases
    case empty
    have "(\<Sum>kd\<leftarrow>risk_details empty_risk_mapping. total (snd kd)) = 0"
      by (simp add: empty_risk_mapping_def comp_def)
    moreover have "map snd (distribution empty_risk_mapping) = replicate 8 0"
      by (simp add: empty_risk_mapping_def comp_def map_replicate_const
            distinct_RISK_CATEGORIES)
    moreover have "map fst (distribution empty_risk_mapping) = RISK_CATEGORIES"
      by (simp add: empty_risk_mapping_def comp_def)
    ultimately show ?thesis
      by (simp only: empty if_True simp_thms)
  next
    case mapped
    note facts = distribution_of_contributions[OF mapped(1,2)]
    show ?thesis
    proof (cases "(\<Sum>kd\<leftarrow>get_risk_details rc. total (snd kd)) = 0")
      case True
      then show ?thesis
        using facts(1) facts(2)[OF True] by (simp add: mapped(3,4))
    next
      case False
      show ?thesis
        unfolding mapped(3,4)
        using False facts(1) facts(4)[OF False] shares_of_contributions[OF mapped(1,2) False]
        by (simp only: if_False simp_thms)
    qed
  qed
qed

lemma outlier_flagged: "is_sensor_anomalous ''LIT-101'' 1 outlier_frame"
proof -
  have c: "map_of (columns outlier_frame) ''LIT-101'' = Some outlier_column"
    by (simp add: outlier_frame_def)
  have l: "\<not> length outlier_column < 2" by (simp add: outlier_column_def)
  show ?thesis
    by (simp add: is_sensor_anomalous_def c l outlier_mean outlier_std Let_def)
qed

lemma outlier_indices:
  "np_where [False, False, False, False, False, False, False, False, True] = [8]"
  by code_simp

lemma outlier_sample:
  "analyze_sample outlier_frame 8 acc = record_anomaly ''LIT-101'' acc"
proof -
  have c: "columns outlier_frame = [(''LIT-101'', outlier_column)]"
    by (simp add: outlier_frame_def)
  have v: "outlier_column ! 8 = 1" by (simp add: outlier_column_def)
  show ?thesis
    by (simp add: analyze_sample_def SENSOR_RISK_MAP_def c v outlier_flagged)
qed

lemma outlier_recorded:
  "\<exists>sc self'. record_anomaly ''LIT-101'' ([], [], RiskMappingAgent_init)
      = (outlier_contributions, sc, self')"
  by (simp add: record_anomaly_def record_risk_def dict_get_def SENSOR_RISK_MAP_def
        outlier_contributions_def)

lemma outlier_result:
  "distribution (fst (map_anomalies_to_risks RiskMappingAgent_init outlier_data))
     = calculate_risk_distribution outlier_contributions
   \<and> risk_details (fst (map_anomalies_to_risks RiskMappingAgent_init outlier_data))
     = get_risk_details outlier_contributions"
proof -
  obtain sc self' where rec: "record_anomaly ''LIT-101'' ([], [], RiskMappingAgent_init)
      = (outlier_contributions, sc, self')"
    using outlier_recorded by blast
  have n: "nrows outlier_frame = 9" by (simp add: outlier_frame_def)
  show ?thesis
    by (simp add: map_anomalies_to_risks_def outlier_data_def outlier_indices Let_def
          n outlier_sample rec)
qed

lemma py_round_third: "py_round (1 / 3) 3 = 333 / 1000"
proof -
  have "\<lfloor>1000 / 3 :: real\<rfloor> = 333" by linarith
  then show ?thesis by (simp add: py_round_def round_half_even_def Let_def)
qed

lemma py_round_zero: "py_round 0 3 = 0"
  by (simp add: py_round_def round_half_even_def)

lemma outlier_distribution:
  "calculate_risk_distribution outlier_contributions =
     [(''Water Overflow'', 333 / 1000),
      (''Pump Damage'', 0),
      (''Water Quality Degradation'', 0),
      (''Unsafe Chemical Dosing'', 0),
      (''Process Interruption'', 333 / 1000),
      (''Unauthorized Access'', 0),
      (''Data Tampering'', 333 / 1000),
      (''Denial of Service'', 0)]"
  by (simp add: calculate_risk_distribution_def outlier_contributions_def RISK_CATEGORIES_def
        dict_get_def py_round_third py_round_zero)

lemma outlier_total:
  "(\<Sum>kd\<leftarrow>get_risk_details outlier_contributions. total (snd kd)) = 3"
  by (simp add: risk_details_total outlier_contributions_def RISK_CATEGORIES_def dict_get_def)

theorem risk_distribution_rounded_shares_witness:
  "(\<Sum>kd\<leftarrow>risk_details (fst (map_anomalies_to_risks RiskMappingAgent_init outlier_data)).
        total (snd kd)) = 3
   \<and> map fst (distribution (fst (map_anomalies_to_risks RiskMappingAgent_init outlier_data)))
       = RISK_CATEGORIES
   \<and> list_all2 (\<lambda>kv kd. fst kv = fst kd
                  \<and> \<bar>snd kv - real_of_int (total (snd kd)) / real_of_int 3\<bar> \<le> 1 / 1000)
       (distribution (fst (map_anomalies_to_risks RiskMappingAgent_init outlier_data)))
       (risk_details (fst (map_anomalies_to_risks RiskMappingAgent_init outlier_data)))
   \<and> \<bar>(\<Sum>kv\<leftarrow>distribution (fst (map_anomalies_to_risks RiskMappingAgent_init outlier_data)).
          snd kv) - 1\<bar> \<le> 0.004"
proof -
  have run: "map_anomalies_to_risks RiskMappingAgent_init outlier_data =
          (fst (map_anomalies_to_risks RiskMappingAgent_init outlier_data),
           snd (map_anomalies_to_risks RiskMappingAgent_init outlier_data))"
    by simp
  have t: "(\<Sum>kd\<leftarrow>risk_details (fst (map_anomalies_to_risks RiskMappingAgent_init
             outlier_data)). total (snd kd)) = 3"
    by (simp only: outlier_result outlier_total)
  have nz: "((3::int) = 0) = False" by simp
  note shares = risk_distribution_rounded_shares[OF run]
  have a: "map fst (distribution (fst (map_anomalies_to_risks RiskMappingAgent_init
             outlier_data))) = RISK_CATEGORIES"
    using shares by (rule conjunct1)
  note rest = conjunct2[OF shares, unfolded t nz if_False]
  have b: "list_all2 (\<lambda>kv kd. fst kv = fst kd
                  \<and> \<bar>snd kv - real_of_int (total (snd kd)) / real_of_int 3\<bar> \<le> 1 / 1000)
       (distribution (fst (map_anomalies_to_risks RiskMappingAgent_init outlier_data)))
       (risk_details (fst (map_anomalies_to_risks RiskMappingAgent_init outlier_data)))"
    using rest by (rule conjunct1)
  have c: "\<bar>(\<Sum>kv\<leftarrow>distribution (fst (map_anomalies_to_risks RiskMappingAgent_init
             outlier_data)). snd kv) - 1\<bar> \<le> 0.004"
    using rest by (rule conjunct2)
  show ?thesis
    by (intro conjI t a b c)
qed

theorem risk_distribution_sum_counterexample:
  "(\<Sum>kd\<leftarrow>risk_details (fst (map_anomalies_to_risks RiskMappingAgent_init outlier_data)).
        total (snd kd)) = 3
   \<and> (\<Sum>kv\<leftarrow>distribution (fst (map_anomalies_to_risks RiskMappingAgent_init outlier_data)).
          snd kv) = 0.999
   \<and> \<bar>(0.999 :: real) - 1\<bar> = 0.001"
proof -
  have "(\<Sum>kv\<leftarrow>calculate_risk_distribution outlier_contributions. snd kv) = 0.999"
    by (simp add: outlier_distribution)
  then show ?thesis
    by (simp only: outlier_result outlier_total) simp
qed


end
